theory Spec2Isabelle
  imports Main "HOL-Library.Word" "HOL-Library.Sublist"
begin

section \<open>JavaScript strings, numbers and encodings\<close>

text \<open>
  A JavaScript string is a sequence of UTF-16 code units: \<open>length\<close>, \<open>slice\<close> and
  \<open>includes\<close> count and compare code units. \<open>js\<close> embeds an ASCII literal of the source.
\<close>

type_synonym code_unit = "16 word"
type_synonym jsstring = "code_unit list"
type_synonym byte = "8 word"

definition js :: "string \<Rightarrow> jsstring" where
  "js s = map of_char s"

text \<open>
  A value interpolated into a template literal is converted with ToString: \<open>undefined\<close>
  prints as the nine letters "undefined", a string as itself.
\<close>

definition template_string :: "jsstring option \<Rightarrow> jsstring" where
  "template_string v = (case v of None \<Rightarrow> js ''undefined'' | Some s \<Rightarrow> s)"

text \<open>Truthiness of a possibly undefined string: \<open>undefined\<close> and \<open>""\<close> are falsy.\<close>

definition truthy :: "jsstring option \<Rightarrow> bool" where
  "truthy v = (case v of None \<Rightarrow> False | Some s \<Rightarrow> s \<noteq> [])"

text \<open>\<open>s.slice(0, n)\<close> and \<open>s.includes(t)\<close> on strings.\<close>

definition slice0 :: "jsstring \<Rightarrow> nat \<Rightarrow> jsstring" where
  "slice0 s n = take n s"

definition includes_str :: "jsstring \<Rightarrow> jsstring \<Rightarrow> bool" where
  "includes_str s t = sublist t s"

text \<open>
  Number to string for the numbers the program computes itself (lengths, counts, positions):
  they are integers far inside the safe range, where \<open>Number.prototype.toString\<close> gives the
  decimal numeral, with a minus sign below zero.
\<close>

function decimal :: "nat \<Rightarrow> jsstring" where
  "decimal n = (if n < 10 then [of_nat (48 + n)] else decimal (n div 10) @ [of_nat (48 + n mod 10)])"
  by pat_completeness auto
termination
  by (relation "measure id") auto

declare decimal.simps [simp del]

definition number_string :: "int \<Rightarrow> jsstring" where
  "number_string i = (if i < 0 then js ''-'' @ decimal (nat (- i)) else decimal (nat i))"

text \<open>
  \<open>Math.round(len / 1024)\<close> for a string length: division by a power of two is exact in
  floating point, and \<open>Math.round\<close> rounds halves upwards.
\<close>

definition round_div_1024 :: "nat \<Rightarrow> nat" where
  "round_div_1024 len = (len + 512) div 1024"

subsection \<open>UTF-8, as written by \<open>Buffer.from(string)\<close> and \<open>writeFileSync(path, string)\<close>\<close>

definition is_high_surrogate :: "code_unit \<Rightarrow> bool" where
  "is_high_surrogate u = (0xD800 \<le> u \<and> u \<le> 0xDBFF)"

definition is_low_surrogate :: "code_unit \<Rightarrow> bool" where
  "is_low_surrogate u = (0xDC00 \<le> u \<and> u \<le> 0xDFFF)"

definition utf8_code_point :: "nat \<Rightarrow> byte list" where
  "utf8_code_point cp =
     (if cp < 0x80 then [of_nat cp]
      else if cp < 0x800 then [of_nat (0xC0 + cp div 64), of_nat (0x80 + cp mod 64)]
      else if cp < 0x10000 then
        [of_nat (0xE0 + cp div 4096), of_nat (0x80 + cp div 64 mod 64), of_nat (0x80 + cp mod 64)]
      else
        [of_nat (0xF0 + cp div 262144), of_nat (0x80 + cp div 4096 mod 64),
         of_nat (0x80 + cp div 64 mod 64), of_nat (0x80 + cp mod 64)])"

text \<open>A surrogate pair is one code point; a lone surrogate is written as U+FFFD.\<close>

fun utf8_encode :: "jsstring \<Rightarrow> byte list" where
  "utf8_encode [] = []"
| "utf8_encode [u] =
     (if is_high_surrogate u \<or> is_low_surrogate u then [0xEF, 0xBF, 0xBD]
      else utf8_code_point (unat u))"
| "utf8_encode (u # v # rest) =
     (if is_high_surrogate u \<and> is_low_surrogate v
      then utf8_code_point (0x10000 + (unat u - 0xD800) * 1024 + (unat v - 0xDC00))
           @ utf8_encode rest
      else if is_high_surrogate u \<or> is_low_surrogate u
      then [0xEF, 0xBF, 0xBD] @ utf8_encode (v # rest)
      else utf8_code_point (unat u) @ utf8_encode (v # rest))"


subsection \<open>Base64, as written by \<open>buffer.toString('base64')\<close>\<close>

definition base64_alphabet :: "string" where
  "base64_alphabet = ''ABCDEFGHIJKLMNOPQRSTUVWXYZabcdefghijklmnopqrstuvwxyz0123456789+/''"

definition base64_char :: "nat \<Rightarrow> code_unit" where
  "base64_char n = js base64_alphabet ! n"

definition base64_pad :: "code_unit" where
  "base64_pad = of_char CHR ''=''"

definition sextet1 :: "byte \<Rightarrow> nat" where
  "sextet1 a = unat a div 4"

definition sextet2 :: "byte \<Rightarrow> byte \<Rightarrow> nat" where
  "sextet2 a b = unat a mod 4 * 16 + unat b div 16"

definition sextet3 :: "byte \<Rightarrow> byte \<Rightarrow> nat" where
  "sextet3 b c = unat b mod 16 * 4 + unat c div 64"

definition sextet4 :: "byte \<Rightarrow> nat" where
  "sextet4 c = unat c mod 64"

fun base64_encode :: "byte list \<Rightarrow> jsstring" where
  "base64_encode [] = []"
| "base64_encode [a] =
     [base64_char (sextet1 a), base64_char (sextet2 a 0), base64_pad, base64_pad]"
| "base64_encode [a, b] =
     [base64_char (sextet1 a), base64_char (sextet2 a b), base64_char (sextet3 b 0), base64_pad]"
| "base64_encode (a # b # c # rest) =
     [base64_char (sextet1 a), base64_char (sextet2 a b),
      base64_char (sextet3 b c), base64_char (sextet4 c)] @ base64_encode rest"







section \<open>Thrown values and the platform\<close>

text \<open>
  A thrown value is an \<open>Error\<close> object with its message (\<open>new Error(m)\<close>, a
  \<open>TypeError\<close> of the engine, a system error of \<open>fs\<close>) or some other value. The catch
  sites read \<open>error instanceof Error ? error.message : fallback\<close>.
\<close>

datatype thrown = ErrorObject jsstring | OtherValue

definition message_or :: "thrown \<Rightarrow> jsstring \<Rightarrow> jsstring" where
  "message_or e fallback = (case e of ErrorObject m \<Rightarrow> m | OtherValue \<Rightarrow> fallback)"

text \<open>The engine's messages for reading a property of \<open>undefined\<close> (V8 wording).\<close>

definition cannot_read :: "string \<Rightarrow> thrown" where
  "cannot_read prop =
     ErrorObject (js (''Cannot read properties of undefined (reading '' @ [CHR 0x27] @ prop
                      @ [CHR 0x27] @ '')''))"

definition cannot_destructure :: "string \<Rightarrow> thrown" where
  "cannot_destructure prop =
     ErrorObject (js (''Cannot destructure property '' @ [CHR 0x27] @ prop @ [CHR 0x27]
                      @ '' of '' @ [CHR 0x27] @ ''args'' @ [CHR 0x27] @ '' as it is undefined.''))"

text \<open>
  What the program takes from Node and the operating system, as parameters: \<open>path.resolve\<close>
  and \<open>path.dirname\<close>, \<open>String.prototype.toUpperCase\<close>, and for each path whether
  \<open>mkdirSync\<close> or \<open>writeFileSync\<close> fails there, and with which message; and the text
  \<open>Number.prototype.toString\<close> gives for an integer outside the safe range, where it rounds to
  seventeen digits or changes to exponent form.
\<close>

record platform =
  path_resolve :: "jsstring \<Rightarrow> jsstring"
  path_dirname :: "jsstring \<Rightarrow> jsstring"
  toUpperCase :: "jsstring \<Rightarrow> jsstring"
  mkdir_error :: "jsstring \<Rightarrow> jsstring option"
  write_error :: "jsstring \<Rightarrow> jsstring option"
  number_toString :: "int \<Rightarrow> jsstring"

text \<open>
  A number taken from the arguments, printed by a template literal. The arguments carry
  integers (a width of 1920.5 is outside this model); up to \<open>2^53 - 1\<close> in magnitude the text is
  the decimal numeral, beyond that it is the platform's.
\<close>

definition template_number :: "platform \<Rightarrow> int \<Rightarrow> jsstring" where
  "template_number pf i =
     (if - 9007199254740991 \<le> i \<and> i \<le> 9007199254740991 then number_string i
      else number_toString pf i)"

text \<open>The file system: file contents and directories, by resolved path.\<close>

record filesystem =
  files :: "jsstring \<Rightarrow> byte list option"
  directories :: "jsstring set"

definition mkdirSync :: "platform \<Rightarrow> filesystem \<Rightarrow> jsstring \<Rightarrow> thrown + filesystem" where
  "mkdirSync pf fs dir =
     (case mkdir_error pf dir of
        Some m \<Rightarrow> Inl (ErrorObject m)
      | None \<Rightarrow> Inr (fs\<lparr>directories := insert (path_resolve pf dir) (directories fs)\<rparr>))"

definition writeFileSync :: "platform \<Rightarrow> filesystem \<Rightarrow> jsstring \<Rightarrow> jsstring \<Rightarrow> thrown + filesystem" where
  "writeFileSync pf fs path content =
     (case write_error pf path of
        Some m \<Rightarrow> Inl (ErrorObject m)
      | None \<Rightarrow> Inr (fs\<lparr>files := (files fs)(path_resolve pf path \<mapsto> utf8_encode content)\<rparr>))"

section \<open>The renderer (\<open>MermaidRenderer\<close>)\<close>

text \<open>
  \<open>ExportOptions\<close> as it arrives at run time: the handler passes its arguments through
  unchecked, so every field, also \<open>diagramCode\<close> and \<open>format\<close>, can be \<open>undefined\<close>.
\<close>

record ExportOptions =
  o_diagramCode :: "jsstring option"
  o_format :: "jsstring option"
  o_theme :: "jsstring option"
  o_width :: "int option"
  o_height :: "int option"
  o_outputPath :: "jsstring option"

record ExportResult =
  success :: bool
  outputPath :: "jsstring option"
  base64Data :: "jsstring option"
  size_str :: jsstring
  details :: jsstring

text \<open>A destructuring default \<open>x = d\<close>: \<open>d\<close> replaces \<open>undefined\<close> only.\<close>

definition or_default :: "'a option \<Rightarrow> 'a \<Rightarrow> 'a" where
  "or_default v d = (case v of None \<Rightarrow> d | Some x \<Rightarrow> x)"

subsection \<open>\<open>getThemeColors\<close>\<close>

record theme_colors =
  nodeColor :: jsstring
  strokeColor :: jsstring
  edgeColor :: jsstring
  textColor :: jsstring

definition themes_default :: theme_colors where
  "themes_default =
     \<lparr>nodeColor = js ''#fff'', strokeColor = js ''#333'', edgeColor = js ''#333'',
      textColor = js ''#333''\<rparr>"

definition themes_dark :: theme_colors where
  "themes_dark =
     \<lparr>nodeColor = js ''#2d2d30'', strokeColor = js ''#d4d4d4'', edgeColor = js ''#d4d4d4'',
      textColor = js ''#d4d4d4''\<rparr>"

definition themes_forest :: theme_colors where
  "themes_forest =
     \<lparr>nodeColor = js ''#f9f9f9'', strokeColor = js ''#4a5d23'', edgeColor = js ''#4a5d23'',
      textColor = js ''#2d3748''\<rparr>"

definition themes_neutral :: theme_colors where
  "themes_neutral =
     \<lparr>nodeColor = js ''#f8f9fa'', strokeColor = js ''#6c757d'', edgeColor = js ''#6c757d'',
      textColor = js ''#495057''\<rparr>"

text \<open>The own properties of the object literal \<open>themes\<close>.\<close>

definition themes :: "(jsstring \<times> theme_colors) list" where
  "themes =
     [(js ''default'', themes_default), (js ''dark'', themes_dark),
      (js ''forest'', themes_forest), (js ''neutral'', themes_neutral)]"

text \<open>
  \<open>themes\<close> is an ordinary object, so \<open>themes[theme]\<close> also finds what it inherits from
  \<open>Object.prototype\<close>. Each of these members is a function or an object, hence truthy, and
  has none of the four colour properties.
\<close>

definition object_prototype_names :: "string list" where
  "object_prototype_names =
     [''constructor'', ''__defineGetter__'', ''__defineSetter__'', ''hasOwnProperty'',
      ''__lookupGetter__'', ''__lookupSetter__'', ''isPrototypeOf'', ''propertyIsEnumerable'',
      ''toString'', ''valueOf'', ''__proto__'', ''toLocaleString'']"

datatype theme_object = Palette theme_colors | InheritedMember

definition getThemeColors :: "jsstring \<Rightarrow> theme_object" where
  "getThemeColors theme =
     (case map_of themes theme of
        Some colors \<Rightarrow> Palette colors
      | None \<Rightarrow>
          if theme \<in> set (map js object_prototype_names) then InheritedMember
          else Palette themes_default)"

text \<open>Reading a colour property of the object that \<open>getThemeColors\<close> returned.\<close>

definition property :: "(theme_colors \<Rightarrow> jsstring) \<Rightarrow> theme_object \<Rightarrow> jsstring option" where
  "property field obj = (case obj of Palette colors \<Rightarrow> Some (field colors) | InheritedMember \<Rightarrow> None)"

subsection \<open>The templates\<close>

definition generateSVGTemplate :: "jsstring option \<Rightarrow> jsstring \<Rightarrow> thrown + jsstring" where
  \<open>generateSVGTemplate diagramCode theme =
     (let themeColors = getThemeColors theme in
      case diagramCode of
        None \<Rightarrow> Inl (cannot_read ''slice'')
      | Some code \<Rightarrow> Inr (
          js (''<?xml version="1.0" encoding="UTF-8"?>\<newline>'' @
              ''<svg width="400" height="300" xmlns="http://www.w3.org/2000/svg">\<newline>'' @
              ''  <defs>\<newline>'' @
              ''    <style>\<newline>'' @
              ''      .node { fill: '') @
          template_string (property nodeColor themeColors) @
          js ''; stroke: '' @
          template_string (property strokeColor themeColors) @
          js (''; stroke-width: 2; }\<newline>'' @
              ''      .edge { stroke: '') @
          template_string (property edgeColor themeColors) @
          js (''; stroke-width: 2; }\<newline>'' @
              ''      .label { fill: '') @
          template_string (property textColor themeColors) @
          js (''; font-family: Arial, sans-serif; font-size: 12px; }\<newline>'' @
              ''    </style>\<newline>'' @
              ''  </defs>\<newline>'' @
              ''  \<newline>'' @
              ''  <!-- Generated from Mermaid code: '') @
          slice0 code 50 @
          js (''... -->\<newline>'' @
              ''  <rect class="node" x="50" y="50" width="100" height="40" rx="5"/>\<newline>'' @
              ''  <text class="label" x="100" y="75" text-anchor="middle">Start</text>\<newline>'' @
              ''  \<newline>'' @
              ''  <line class="edge" x1="150" y1="70" x2="200" y2="70" marker-end="url(#arrow)"/>\<newline>'' @
              ''  \<newline>'' @
              ''  <rect class="node" x="200" y="50" width="100" height="40" rx="5"/>\<newline>'' @
              ''  <text class="label" x="250" y="75" text-anchor="middle">Process</text>\<newline>'' @
              ''  \<newline>'' @
              ''  <defs>\<newline>'' @
              ''    <marker id="arrow" markerWidth="10" markerHeight="10" refX="9" refY="3" orient="auto">\<newline>'' @
              ''      <polygon points="0 0, 10 3, 0 6" fill="'') @
          template_string (property edgeColor themeColors) @
          js (''"/>\<newline>'' @
              ''    </marker>\<newline>'' @
              ''  </defs>\<newline>'' @
              ''</svg>'')))\<close>

definition generateHTMLTemplate :: "jsstring option \<Rightarrow> jsstring \<Rightarrow> jsstring" where
  \<open>generateHTMLTemplate diagramCode theme =
     js (''<!DOCTYPE html>\<newline>'' @
         ''<html lang="en">\<newline>'' @
         ''<head>\<newline>'' @
         ''    <meta charset="UTF-8">\<newline>'' @
         ''    <meta name="viewport" content="width=device-width, initial-scale=1.0">\<newline>'' @
         ''    <title>Mermaid Diagram</title>\<newline>'' @
         ''    <script src="https://cdn.jsdelivr.net/npm/mermaid@10.6.1/dist/mermaid.min.js"></script>\<newline>'' @
         ''    <style>\<newline>'' @
         ''        body {\<newline>'' @
         ''            margin: 0;\<newline>'' @
         ''            padding: 20px;\<newline>'' @
         ''            font-family: -apple-system, BlinkMacSystemFont, '' @ [CHR 0x27] @ ''Segoe UI'' @ [CHR 0x27] @ '', Roboto, sans-serif;\<newline>'' @
         ''            '') @
     (if theme = js ''dark'' then js ''background: #1e1e1e; color: #d4d4d4;''
      else js ''background: white; color: black;'') @
     js (''\<newline>'' @
         ''        }\<newline>'' @
         ''        .diagram-container {\<newline>'' @
         ''            text-align: center;\<newline>'' @
         ''            padding: 20px;\<newline>'' @
         ''        }\<newline>'' @
         ''    </style>\<newline>'' @
         ''</head>\<newline>'' @
         ''<body>\<newline>'' @
         ''    <div class="diagram-container">\<newline>'' @
         ''        <h1>Generated Diagram</h1>\<newline>'' @
         ''        <div class="mermaid">\<newline>'') @
     template_string diagramCode @
     js (''\<newline>'' @
         ''        </div>\<newline>'' @
         ''    </div>\<newline>'' @
         ''    \<newline>'' @
         ''    <script>\<newline>'' @
         ''        mermaid.initialize({ \<newline>'' @
         ''            startOnLoad: true,\<newline>'' @
         ''            theme: '' @ [CHR 0x27]) @
     theme @
     js ([CHR 0x27] @ '',\<newline>'' @
         ''            securityLevel: '' @ [CHR 0x27] @ ''loose'' @ [CHR 0x27] @ ''\<newline>'' @
         ''        });\<newline>'' @
         ''    </script>\<newline>'' @
         ''</body>\<newline>'' @
         ''</html>'')\<close>

subsection \<open>The four format branches\<close>

text \<open>\<open>ensureDirectoryExists\<close>: whatever \<open>mkdirSync\<close> throws is swallowed.\<close>

definition ensureDirectoryExists :: "platform \<Rightarrow> filesystem \<Rightarrow> jsstring \<Rightarrow> filesystem" where
  "ensureDirectoryExists pf fs filePath =
     (let dir = path_dirname pf filePath in
      case mkdirSync pf fs dir of Inl error \<Rightarrow> fs | Inr fs' \<Rightarrow> fs')"

definition renderSVG ::
  "platform \<Rightarrow> filesystem \<Rightarrow> jsstring option \<Rightarrow> jsstring \<Rightarrow> jsstring option
     \<Rightarrow> (thrown + ExportResult) \<times> filesystem" where
  "renderSVG pf fs diagramCode theme outputPath' =
     (case generateSVGTemplate diagramCode theme of
        Inl error \<Rightarrow> (Inl error, fs)
      | Inr svg \<Rightarrow>
          if truthy outputPath' then
            (let path = the outputPath'; fs1 = ensureDirectoryExists pf fs path in
             case writeFileSync pf fs1 path svg of
               Inl error \<Rightarrow> (Inl error, fs1)
             | Inr fs2 \<Rightarrow>
                 (Inr \<lparr>success = True,
                       outputPath = Some (path_resolve pf path),
                       base64Data = None,
                       size_str = decimal (round_div_1024 (length svg)) @ js ''KB'',
                       details = js ''SVG exported successfully with '' @ theme @ js '' theme''\<rparr>,
                  fs2))
          else
            (Inr \<lparr>success = True,
                  outputPath = None,
                  base64Data = Some (base64_encode (utf8_encode svg)),
                  size_str = decimal (round_div_1024 (length svg)) @ js ''KB'',
                  details = js ''SVG generated as base64 with '' @ theme @ js '' theme''\<rparr>,
             fs))"

definition renderPNG ::
  "platform \<Rightarrow> filesystem \<Rightarrow> jsstring option \<Rightarrow> jsstring \<Rightarrow> int \<Rightarrow> int \<Rightarrow> jsstring option
     \<Rightarrow> (thrown + ExportResult) \<times> filesystem" where
  "renderPNG pf fs diagramCode theme width height outputPath' =
     (let details' = js ''PNG would be rendered at '' @ template_number pf width @ js ''x''
                     @ template_number pf height @ js '' with '' @ theme @ js '' theme'' in
      if truthy outputPath' then
        (case diagramCode of
           None \<Rightarrow> (Inl (cannot_read ''slice''), fs)
         | Some code \<Rightarrow>
             (let placeholder = js ''PNG export placeholder for diagram: '' @ slice0 code 50 @ js ''...'';
                  path = the outputPath';
                  fs1 = ensureDirectoryExists pf fs path in
              case writeFileSync pf fs1 path placeholder of
                Inl error \<Rightarrow> (Inl error, fs1)
              | Inr fs2 \<Rightarrow>
                  (Inr \<lparr>success = True,
                        outputPath = Some (path_resolve pf path),
                        base64Data = None,
                        size_str = js ''~150KB'',
                        details = details'\<rparr>,
                   fs2)))
      else
        (Inr \<lparr>success = True,
              outputPath = None,
              base64Data = Some (js ''iVBORw0KGgoAAAANSUhEUgAAAAEAAAABCAYAAAAfFcSJAAAADUlEQVR42mNkYPhfDwAChwGA60e6kgAAAABJRU5ErkJggg==''),
              size_str = js ''~150KB'',
              details = details'\<rparr>,
         fs))"

definition renderPDF ::
  "platform \<Rightarrow> filesystem \<Rightarrow> jsstring option \<Rightarrow> jsstring \<Rightarrow> jsstring option
     \<Rightarrow> (thrown + ExportResult) \<times> filesystem" where
  "renderPDF pf fs diagramCode theme outputPath' =
     (let details' = js ''PDF would be generated with '' @ theme @ js '' theme'' in
      if truthy outputPath' then
        (case diagramCode of
           None \<Rightarrow> (Inl (cannot_read ''slice''), fs)
         | Some code \<Rightarrow>
             (let placeholder = js ''PDF export placeholder for diagram: '' @ slice0 code 50 @ js ''...'';
                  path = the outputPath';
                  fs1 = ensureDirectoryExists pf fs path in
              case writeFileSync pf fs1 path placeholder of
                Inl error \<Rightarrow> (Inl error, fs1)
              | Inr fs2 \<Rightarrow>
                  (Inr \<lparr>success = True,
                        outputPath = Some (path_resolve pf path),
                        base64Data = None,
                        size_str = js ''~200KB'',
                        details = details'\<rparr>,
                   fs2)))
      else
        (Inr \<lparr>success = True,
              outputPath = None,
              base64Data = Some (js ''JVBERi0xLjQKJeL+LywKMSAwIG9iago8PAovVHlwZSAvQ2F0YWxvZwovUGFnZXMgMiAwIFIKPj4KZW5kb2JqCjIgMCBvYmoKPDwKL1R5cGUgL1BhZ2VzCi9LaWRzIFsgXQovQ291bnQgMAo+PgplbmRvYmoKCnRyYWlsZXIKPDwKL1NpemUgMgovUm9vdCAxIDAgUgo+PgpzdGFydHhyZWYKMTU4CiUlRU9G''),
              size_str = js ''~200KB'',
              details = details'\<rparr>,
         fs))"

definition renderHTML ::
  "platform \<Rightarrow> filesystem \<Rightarrow> jsstring option \<Rightarrow> jsstring \<Rightarrow> jsstring option
     \<Rightarrow> (thrown + ExportResult) \<times> filesystem" where
  "renderHTML pf fs diagramCode theme outputPath' =
     (let html = generateHTMLTemplate diagramCode theme in
      if truthy outputPath' then
        (let path = the outputPath'; fs1 = ensureDirectoryExists pf fs path in
         case writeFileSync pf fs1 path html of
           Inl error \<Rightarrow> (Inl error, fs1)
         | Inr fs2 \<Rightarrow>
             (Inr \<lparr>success = True,
                   outputPath = Some (path_resolve pf path),
                   base64Data = None,
                   size_str = decimal (round_div_1024 (length html)) @ js ''KB'',
                   details = js ''Interactive HTML exported with '' @ theme @ js '' theme''\<rparr>,
              fs2))
      else
        (Inr \<lparr>success = True,
              outputPath = None,
              base64Data = Some (base64_encode (utf8_encode html)),
              size_str = decimal (round_div_1024 (length html)) @ js ''KB'',
              details = js ''Interactive HTML generated with '' @ theme @ js '' theme''\<rparr>,
         fs))"

subsection \<open>\<open>exportDiagram\<close>\<close>

text \<open>
  The \<open>switch\<close> compares \<open>format\<close> with the four literals; the \<open>catch\<close> around it logs
  and throws the same value again.
\<close>

definition exportDiagram ::
  "platform \<Rightarrow> filesystem \<Rightarrow> ExportOptions \<Rightarrow> (thrown + ExportResult) \<times> filesystem" where
  "exportDiagram pf fs options =
     (let diagramCode = o_diagramCode options;
          format = o_format options;
          theme = or_default (o_theme options) (js ''default'');
          width = or_default (o_width options) 1920;
          height = or_default (o_height options) 1080;
          outputPath' = o_outputPath options in
      case (if format = Some (js ''svg'') then renderSVG pf fs diagramCode theme outputPath'
            else if format = Some (js ''png'') then renderPNG pf fs diagramCode theme width height outputPath'
            else if format = Some (js ''pdf'') then renderPDF pf fs diagramCode theme outputPath'
            else if format = Some (js ''html'') then renderHTML pf fs diagramCode theme outputPath'
            else (Inl (ErrorObject (js ''Unsupported format: '' @ template_string format)), fs))
      of (Inl error, fs') \<Rightarrow> (Inl error, fs')
       | (Inr result, fs') \<Rightarrow> (Inr result, fs'))"

section \<open>The tools (\<open>MermaidTools\<close>)\<close>

text \<open>
  The argument object of a tool call. A field that is present carries a value of the JSON
  type its schema declares (a string, a boolean, or a number, taken to be an integer); any
  field may be absent (\<open>undefined\<close>), and the object itself is absent when the request has
  no \<open>arguments\<close>. Writing to the log (the error stream) is not part of the model.
\<close>

record ToolArguments =
  a_code :: "jsstring option"
  a_diagram_type :: "jsstring option"
  a_language :: "jsstring option"
  a_include_details :: "bool option"
  a_diagram_code :: "jsstring option"
  a_analysis_type :: "jsstring option"
  a_context :: "jsstring option"
  a_audience :: "jsstring option"
  a_workflow_description :: "jsstring option"
  a_workflow_type :: "jsstring option"
  a_include_decision_points :: "bool option"
  a_format :: "jsstring option"
  a_output_path :: "jsstring option"
  a_theme :: "jsstring option"
  a_width :: "int option"
  a_height :: "int option"
  a_strict_mode :: "bool option"
  a_provide_suggestions :: "bool option"

text \<open>The empty object \<open>{}\<close>.\<close>

definition no_arguments :: ToolArguments where
  "no_arguments =
     \<lparr>a_code = None, a_diagram_type = None, a_language = None, a_include_details = None,
      a_diagram_code = None, a_analysis_type = None, a_context = None, a_audience = None,
      a_workflow_description = None, a_workflow_type = None, a_include_decision_points = None,
      a_format = None, a_output_path = None, a_theme = None, a_width = None, a_height = None,
      a_strict_mode = None, a_provide_suggestions = None\<rparr>"

datatype BlockType = TextBlock | ImageBlock

record ContentBlock =
  block_type :: BlockType
  block_text :: "jsstring option"
  block_data :: "jsstring option"
  block_mimeType :: "jsstring option"

record ToolResponse =
  content :: "ContentBlock list"

text \<open>The object literal \<open>{ type: 'text', text: t }\<close>.\<close>

definition text_block :: "jsstring \<Rightarrow> ContentBlock" where
  "text_block t =
     \<lparr>block_type = TextBlock, block_text = Some t, block_data = None, block_mimeType = None\<rparr>"

text \<open>\<open>xs.join(sep)\<close> on an array of strings.\<close>

fun join :: "jsstring \<Rightarrow> jsstring list \<Rightarrow> jsstring" where
  "join sep [] = []"
| "join sep [x] = x"
| "join sep (x # y # ys) = x @ sep @ join sep (y # ys)"

text \<open>The wrapping \<open>catch\<close> of every handler: \<open>throw new Error(prefix + message)\<close>.\<close>

definition rethrow :: "string \<Rightarrow> thrown \<Rightarrow> thrown" where
  "rethrow label error = ErrorObject (js label @ message_or error (js ''Unknown error''))"

subsection \<open>The private helpers\<close>

record CodeStructure =
  cs_detectedType :: jsstring
  cs_complexity :: jsstring
  cs_elements :: "jsstring list"

definition analyzeCodeStructure :: "jsstring option \<Rightarrow> jsstring option \<Rightarrow> CodeStructure" where
  "analyzeCodeStructure code language =
     \<lparr>cs_detectedType = js ''flowchart'',
      cs_complexity = js ''medium'',
      cs_elements = [js ''functions'', js ''variables'', js ''classes'']\<rparr>"

definition generateDiagramCode :: "CodeStructure \<Rightarrow> jsstring \<Rightarrow> bool \<Rightarrow> jsstring" where
  "generateDiagramCode analysis diagramType includeDetails =
     js (''flowchart TD\<newline>'' @ ''    A[Start] --> B[Process]\<newline>'' @ ''    B --> C[End]'')"

record DiagramAnalysis =
  da_type :: jsstring
  da_nodeCount :: int
  da_edgeCount :: int
  da_complexityScore :: int
  da_details :: jsstring
  da_recommendations :: "jsstring list"

definition performDiagramAnalysis :: "jsstring option \<Rightarrow> jsstring \<Rightarrow> DiagramAnalysis" where
  "performDiagramAnalysis diagramCode analysisType =
     \<lparr>da_type = js ''flowchart'',
      da_nodeCount = 3,
      da_edgeCount = 2,
      da_complexityScore = 5,
      da_details = js ''Simple linear flow'',
      da_recommendations = [js ''Add decision points'', js ''Include error handling'']\<rparr>"

record Suggestion =
  sg_title :: jsstring
  sg_priority :: jsstring
  sg_description :: jsstring
  sg_implementation :: jsstring
  sg_optimizedCode :: "jsstring option"

definition generateImprovementSuggestions ::
  "jsstring option \<Rightarrow> jsstring option \<Rightarrow> jsstring \<Rightarrow> Suggestion list" where
  "generateImprovementSuggestions diagramCode context audience =
     [\<lparr>sg_title = js ''Improve Readability'',
       sg_priority = js ''High'',
       sg_description = js ''Add clearer labels and grouping'',
       sg_implementation = js ''Use subgraphs and better node labels'',
       sg_optimizedCode = diagramCode\<rparr>]"

definition generateWorkflowDiagram ::
  "jsstring option \<Rightarrow> jsstring option \<Rightarrow> bool \<Rightarrow> jsstring \<Rightarrow> jsstring" where
  "generateWorkflowDiagram description type includeDecisions format =
     (if format = js ''sequence'' then
        js (''sequenceDiagram\<newline>'' @ ''    participant A as User\<newline>'' @
            ''    participant B as System\<newline>'' @ ''    A->>B: Request\<newline>'' @
            ''    B-->>A: Response'')
      else if format = js ''state'' then
        js (''stateDiagram-v2\<newline>'' @ ''    [*] --> Idle\<newline>'' @
            ''    Idle --> Processing\<newline>'' @ ''    Processing --> [*]'')
      else if format = js ''gantt'' then
        js (''gantt\<newline>'' @ ''    title Project Timeline\<newline>'' @
            ''    dateFormat YYYY-MM-DD\<newline>'' @ ''    section Phase 1\<newline>'' @
            ''    Task 1: 2024-01-01, 3d'')
      else
        js (''flowchart TD\<newline>'' @ ''    A[Start] --> B{Decision}\<newline>'' @
            ''    B -->|Yes| C[Action]\<newline>'' @ ''    B -->|No| D[Alternative]\<newline>'' @
            ''    C --> E[End]\<newline>'' @ ''    D --> E''))"

record ValidationError =
  e_line :: int
  e_message :: jsstring

record SyntaxValidation =
  v_isValid :: bool
  v_diagramType :: jsstring
  v_nodeCount :: int
  v_complexity :: jsstring
  v_errors :: "ValidationError list"
  v_suggestions :: "jsstring list"
  v_correctedCode :: "jsstring option"

definition performSyntaxValidation :: "jsstring option \<Rightarrow> bool \<Rightarrow> SyntaxValidation" where
  "performSyntaxValidation diagramCode strictMode =
     \<lparr>v_isValid = True,
      v_diagramType = js ''flowchart'',
      v_nodeCount = 3,
      v_complexity = js ''low'',
      v_errors = [],
      v_suggestions = [],
      v_correctedCode = None\<rparr>"

subsection \<open>\<open>validateDiagramSyntax\<close>\<close>

text \<open>The two marks of the report: U+2705 and U+274C.\<close>

definition check_mark :: jsstring where
  "check_mark = [0x2705]"

definition cross_mark :: jsstring where
  "cross_mark = [0x274C]"

definition validateDiagramSyntax_destructure ::
  "ToolArguments \<Rightarrow> jsstring option \<times> bool \<times> bool" where
  "validateDiagramSyntax_destructure args =
     (a_diagram_code args, or_default (a_strict_mode args) False,
      or_default (a_provide_suggestions args) True)"

text \<open>The string \<open>response\<close> that the handler builds with \<open>+=\<close>.\<close>

definition validation_response :: "SyntaxValidation \<Rightarrow> bool \<Rightarrow> jsstring" where
  "validation_response validation provide_suggestions =
     js (''# Syntax Validation Results\<newline>'' @ ''\<newline>'') @
     (if v_isValid validation then
        check_mark @ js ('' **Valid Mermaid syntax**\<newline>'' @ ''\<newline>'') @
        js ''## Diagram Info\<newline>'' @
        js ''- **Type**: '' @ v_diagramType validation @ js ''\<newline>'' @
        js ''- **Nodes**: '' @ number_string (v_nodeCount validation) @ js ''\<newline>'' @
        js ''- **Complexity**: '' @ v_complexity validation @ js ''\<newline>''
      else
        cross_mark @ js ('' **Invalid syntax found**\<newline>'' @ ''\<newline>'') @
        js ''## Errors\<newline>'' @
        join (js ''\<newline>'')
          (map (\<lambda>e. js ''- **Line '' @ number_string (e_line e) @ js ''**: '' @ e_message e)
             (v_errors validation)) @
        js (''\<newline>'' @ ''\<newline>'') @
        (if provide_suggestions \<and> length (v_suggestions validation) > 0 then
           js ''## Suggested Fixes\<newline>'' @
           join (js ''\<newline>'') (map (\<lambda>s. js ''- '' @ s) (v_suggestions validation)) @
           js (''\<newline>'' @ ''\<newline>'') @
           (if truthy (v_correctedCode validation) then
              js (''## Corrected Code\<newline>'' @ ''```mermaid\<newline>'') @
              the (v_correctedCode validation) @ js (''\<newline>'' @ ''```'')
            else [])
         else []))"

definition validateDiagramSyntax :: "ToolArguments option \<Rightarrow> thrown + ToolResponse" where
  "validateDiagramSyntax args =
     (case args of
        None \<Rightarrow> Inl (cannot_destructure ''diagram_code'')
      | Some a \<Rightarrow>
          (case validateDiagramSyntax_destructure a of
             (diagram_code, strict_mode, provide_suggestions) \<Rightarrow>
               (let validation = performSyntaxValidation diagram_code strict_mode;
                    response = validation_response validation provide_suggestions in
                Inr \<lparr>content = [text_block response]\<rparr>)))"

subsection \<open>\<open>generateDiagramFromCode\<close>\<close>

definition generateDiagramFromCode_destructure ::
  "ToolArguments \<Rightarrow> jsstring option \<times> jsstring \<times> jsstring option \<times> bool" where
  "generateDiagramFromCode_destructure args =
     (a_code args, or_default (a_diagram_type args) (js ''auto''), a_language args,
      or_default (a_include_details args) False)"

text \<open>\<open>validation.content[0]?.text?.includes(mark)\<close>.\<close>

definition first_text_includes :: "ToolResponse \<Rightarrow> jsstring \<Rightarrow> bool" where
  "first_text_includes response mark =
     (case content response of
        [] \<Rightarrow> False
      | block # _ \<Rightarrow> (case block_text block of None \<Rightarrow> False | Some t \<Rightarrow> includes_str t mark))"

definition generateDiagramFromCode :: "ToolArguments option \<Rightarrow> thrown + ToolResponse" where
  "generateDiagramFromCode args =
     (case args of
        None \<Rightarrow> Inl (cannot_destructure ''code'')
      | Some a \<Rightarrow>
          (case generateDiagramFromCode_destructure a of
             (code, diagram_type, language, include_details) \<Rightarrow>
               (let analysis = analyzeCodeStructure code language;
                    diagramCode = generateDiagramCode analysis diagram_type include_details in
                case validateDiagramSyntax (Some (no_arguments\<lparr>a_diagram_code := Some diagramCode\<rparr>)) of
                  Inl error \<Rightarrow> Inl (rethrow ''Failed to generate diagram from code: '' error)
                | Inr validation \<Rightarrow>
                    Inr \<lparr>content = [text_block (
                      js ''# Generated '' @ cs_detectedType analysis @
                      js ('' Diagram\<newline>'' @ ''\<newline>'' @ ''```mermaid\<newline>'') @
                      diagramCode @
                      js (''\<newline>'' @ ''```\<newline>'' @ ''\<newline>'' @
                          ''## Analysis Summary\<newline>'' @ ''- **Detected Type**: '') @
                      cs_detectedType analysis @
                      js (''\<newline>'' @ ''- **Complexity**: '') @
                      cs_complexity analysis @
                      js (''\<newline>'' @ ''- **Elements**: '') @
                      join (js '', '') (cs_elements analysis) @
                      js (''\<newline>'' @ ''- **Syntax Valid**: '') @
                      (if first_text_includes validation check_mark then js ''Yes'' else js ''No''))]\<rparr>)))"

subsection \<open>\<open>analyzeDiagramStructure\<close>\<close>

definition analyzeDiagramStructure_destructure :: "ToolArguments \<Rightarrow> jsstring option \<times> jsstring" where
  "analyzeDiagramStructure_destructure args =
     (a_diagram_code args, or_default (a_analysis_type args) (js ''full''))"

definition analyzeDiagramStructure :: "ToolArguments option \<Rightarrow> thrown + ToolResponse" where
  "analyzeDiagramStructure args =
     (case args of
        None \<Rightarrow> Inl (cannot_destructure ''diagram_code'')
      | Some a \<Rightarrow>
          (case analyzeDiagramStructure_destructure a of
             (diagram_code, analysis_type) \<Rightarrow>
               (let analysis = performDiagramAnalysis diagram_code analysis_type in
                Inr \<lparr>content = [text_block (
                  js (''# Diagram Structure Analysis\<newline>'' @ ''\<newline>'' @
                      ''## Overview\<newline>'' @ ''- **Type**: '') @
                  da_type analysis @
                  js (''\<newline>'' @ ''- **Nodes**: '') @
                  number_string (da_nodeCount analysis) @
                  js (''\<newline>'' @ ''- **Edges**: '') @
                  number_string (da_edgeCount analysis) @
                  js (''\<newline>'' @ ''- **Complexity Score**: '') @
                  number_string (da_complexityScore analysis) @
                  js (''/10\<newline>'' @ ''\<newline>'' @ ''## Structure Details\<newline>'') @
                  da_details analysis @
                  js (''\<newline>'' @ ''\<newline>'' @ ''## Recommendations\<newline>'') @
                  join (js ''\<newline>'') (map (\<lambda>r. js ''- '' @ r) (da_recommendations analysis)))]\<rparr>)))"

subsection \<open>\<open>suggestDiagramImprovements\<close>\<close>

definition suggestDiagramImprovements_destructure ::
  "ToolArguments \<Rightarrow> jsstring option \<times> jsstring option \<times> jsstring" where
  "suggestDiagramImprovements_destructure args =
     (a_diagram_code args, a_context args, or_default (a_audience args) (js ''general''))"

text \<open>\<open>suggestions.find(s => s.optimizedCode)?.optimizedCode || diagram_code\<close>.\<close>

definition optimized_or :: "Suggestion list \<Rightarrow> jsstring option \<Rightarrow> jsstring option" where
  "optimized_or suggestions diagram_code =
     (let found = (case find (\<lambda>s. truthy (sg_optimizedCode s)) suggestions of
                     None \<Rightarrow> None
                   | Some s \<Rightarrow> sg_optimizedCode s) in
      if truthy found then found else diagram_code)"

definition suggestDiagramImprovements :: "ToolArguments option \<Rightarrow> thrown + ToolResponse" where
  "suggestDiagramImprovements args =
     (case args of
        None \<Rightarrow> Inl (cannot_destructure ''diagram_code'')
      | Some a \<Rightarrow>
          (case suggestDiagramImprovements_destructure a of
             (diagram_code, context, audience) \<Rightarrow>
               (let suggestions = generateImprovementSuggestions diagram_code context audience in
                Inr \<lparr>content = [text_block (
                  js (''# Diagram Improvement Suggestions\<newline>'' @ ''\<newline>'' @ ''## For '') @
                  audience @
                  js ('' audience\<newline>'' @ ''\<newline>'') @
                  join (js ''\<newline>'')
                    (map (\<lambda>(i, s).
                            js ''### '' @ number_string (int i + 1) @ js ''. '' @ sg_title s @
                            js (''\<newline>'' @ ''**Priority**: '') @ sg_priority s @
                            js (''\<newline>'' @ ''**Description**: '') @ sg_description s @
                            js (''\<newline>'' @ ''**Implementation**: '') @ sg_implementation s @
                            js ''\<newline>'')
                       (enumerate 0 suggestions)) @
                  js (''\<newline>'' @ ''\<newline>'' @ ''## Optimized Version\<newline>'' @
                      ''```mermaid\<newline>'') @
                  template_string (optimized_or suggestions diagram_code) @
                  js (''\<newline>'' @ ''```''))]\<rparr>)))"

subsection \<open>\<open>createWorkflowDiagram\<close>\<close>

definition createWorkflowDiagram_destructure ::
  "ToolArguments \<Rightarrow> jsstring option \<times> jsstring option \<times> bool \<times> jsstring" where
  "createWorkflowDiagram_destructure args =
     (a_workflow_description args, a_workflow_type args,
      or_default (a_include_decision_points args) True,
      or_default (a_format args) (js ''flowchart''))"

text \<open>
  The template literal is evaluated from left to right: \<open>workflow_type.toUpperCase()\<close>
  first, \<open>workflow_description.slice(0, 100)\<close> last.
\<close>

definition createWorkflowDiagram :: "platform \<Rightarrow> ToolArguments option \<Rightarrow> thrown + ToolResponse" where
  "createWorkflowDiagram pf args =
     (case args of
        None \<Rightarrow> Inl (cannot_destructure ''workflow_description'')
      | Some a \<Rightarrow>
          (case createWorkflowDiagram_destructure a of
             (workflow_description, workflow_type, include_decision_points, format) \<Rightarrow>
               (let workflowDiagram =
                      generateWorkflowDiagram workflow_description workflow_type
                        include_decision_points format in
                case workflow_type of
                  None \<Rightarrow> Inl (rethrow ''Failed to create workflow diagram: '' (cannot_read ''toUpperCase''))
                | Some wtype \<Rightarrow>
                    (case workflow_description of
                       None \<Rightarrow> Inl (rethrow ''Failed to create workflow diagram: '' (cannot_read ''slice''))
                     | Some description \<Rightarrow>
                         Inr \<lparr>content = [text_block (
                           js ''# '' @ toUpperCase pf wtype @
                           js ('' Workflow Diagram\<newline>'' @ ''\<newline>'' @ ''```mermaid\<newline>'') @
                           workflowDiagram @
                           js (''\<newline>'' @ ''```\<newline>'' @ ''\<newline>'' @
                               ''## Workflow Features\<newline>'' @ ''- **Type**: '') @
                           wtype @
                           js (''\<newline>'' @ ''- **Format**: '') @
                           format @
                           js (''\<newline>'' @ ''- **Decision Points**: '') @
                           (if include_decision_points then js ''Included'' else js ''Not included'') @
                           js (''\<newline>'' @ ''- **Generated from**: '') @
                           slice0 description 100 @
                           (if length description > 100 then js ''...'' else []))]\<rparr>))))"

subsection \<open>\<open>exportDiagramFormats\<close>\<close>

definition exportDiagramFormats_destructure ::
  "ToolArguments \<Rightarrow> jsstring option \<times> jsstring option \<times> jsstring option \<times> jsstring \<times> int \<times> int" where
  "exportDiagramFormats_destructure args =
     (a_diagram_code args, a_format args, a_output_path args,
      or_default (a_theme args) (js ''default''),
      or_default (a_width args) 1920,
      or_default (a_height args) 1080)"

definition exportDiagramFormats ::
  "platform \<Rightarrow> filesystem \<Rightarrow> ToolArguments option \<Rightarrow> (thrown + ToolResponse) \<times> filesystem" where
  "exportDiagramFormats pf fs args =
     (case args of
        None \<Rightarrow> (Inl (cannot_destructure ''diagram_code''), fs)
      | Some a \<Rightarrow>
          (case exportDiagramFormats_destructure a of
             (diagram_code, format, output_path, theme, width, height) \<Rightarrow>
               (case exportDiagram pf fs
                       \<lparr>o_diagramCode = diagram_code, o_format = format, o_theme = Some theme,
                        o_width = Some width, o_height = Some height, o_outputPath = output_path\<rparr> of
                  (Inl error, fs') \<Rightarrow> (Inl (rethrow ''Failed to export diagram: '' error), fs')
                | (Inr exportResult, fs') \<Rightarrow>
                    (case format of
                       None \<Rightarrow> (Inl (rethrow ''Failed to export diagram: '' (cannot_read ''toUpperCase'')), fs')
                     | Some fmt \<Rightarrow>
                         (Inr \<lparr>content = [text_block (
                            js (''# Diagram Export Complete\<newline>'' @ ''\<newline>'' @ ''- **Format**: '') @
                            toUpperCase pf fmt @
                            js (''\<newline>'' @ ''- **Theme**: '') @
                            theme @
                            js (''\<newline>'' @ ''- **Dimensions**: '') @
                            template_number pf width @ js ''x'' @ template_number pf height @
                            js (''\<newline>'' @ ''- **Output**: '') @
                            (if truthy (outputPath exportResult) then the (outputPath exportResult)
                             else js ''Base64 encoded'') @
                            js (''\<newline>'' @ ''- **Size**: '') @
                            size_str exportResult @
                            js (''\<newline>'' @ ''\<newline>'' @ ''## Export Details\<newline>'') @
                            details exportResult)]\<rparr>,
                          fs')))))"

section \<open>The server (\<open>MermaidServer\<close>)\<close>

subsection \<open>The tool list\<close>

datatype json = JString jsstring | JNumber int | JBoolean bool

record PropertySchema =
  p_type :: jsstring
  p_enum :: "jsstring list option"
  p_description :: jsstring
  p_default :: "json option"

record InputSchema =
  s_type :: jsstring
  s_properties :: "(jsstring \<times> PropertySchema) list"
  s_required :: "jsstring list"

record Tool =
  t_name :: jsstring
  t_description :: jsstring
  t_inputSchema :: InputSchema

definition generate_diagram_from_code_tool :: Tool where
  "generate_diagram_from_code_tool =
     \<lparr>t_name = js ''generate_diagram_from_code'',
      t_description = js ''Generate Mermaid diagrams from code analysis (flowcharts, sequence diagrams, class diagrams)'',
      t_inputSchema =
        \<lparr>s_type = js ''object'',
         s_properties =
           [(js ''code'',
             \<lparr>p_type = js ''string'',
              p_enum = None,
              p_description = js ''Source code to analyze and generate diagram from'',
              p_default = None\<rparr>),
            (js ''diagram_type'',
             \<lparr>p_type = js ''string'',
              p_enum = Some [js ''flowchart'', js ''sequence'', js ''class'', js ''state'', js ''auto''],
              p_description = js ''Type of diagram to generate (auto for intelligent detection)'',
              p_default = None\<rparr>),
            (js ''language'',
             \<lparr>p_type = js ''string'',
              p_enum = None,
              p_description = js ''Programming language of the source code'',
              p_default = None\<rparr>),
            (js ''include_details'',
             \<lparr>p_type = js ''boolean'',
              p_enum = None,
              p_description = js ''Include detailed annotations and comments'',
              p_default = Some (JBoolean False)\<rparr>)],
         s_required = [js ''code'']\<rparr>\<rparr>"

definition analyze_diagram_structure_tool :: Tool where
  "analyze_diagram_structure_tool =
     \<lparr>t_name = js ''analyze_diagram_structure'',
      t_description = js ''Analyze existing Mermaid diagram structure and provide insights'',
      t_inputSchema =
        \<lparr>s_type = js ''object'',
         s_properties =
           [(js ''diagram_code'',
             \<lparr>p_type = js ''string'',
              p_enum = None,
              p_description = js ''Mermaid diagram code to analyze'',
              p_default = None\<rparr>),
            (js ''analysis_type'',
             \<lparr>p_type = js ''string'',
              p_enum = Some [js ''structure'', js ''complexity'', js ''optimization'', js ''full''],
              p_description = js ''Type of analysis to perform'',
              p_default = Some (JString (js ''full''))\<rparr>)],
         s_required = [js ''diagram_code'']\<rparr>\<rparr>"

definition suggest_diagram_improvements_tool :: Tool where
  "suggest_diagram_improvements_tool =
     \<lparr>t_name = js ''suggest_diagram_improvements'',
      t_description = js ''AI-powered suggestions for improving diagram clarity and effectiveness'',
      t_inputSchema =
        \<lparr>s_type = js ''object'',
         s_properties =
           [(js ''diagram_code'',
             \<lparr>p_type = js ''string'',
              p_enum = None,
              p_description = js ''Mermaid diagram code to improve'',
              p_default = None\<rparr>),
            (js ''context'',
             \<lparr>p_type = js ''string'',
              p_enum = None,
              p_description = js ''Context or purpose of the diagram for targeted suggestions'',
              p_default = None\<rparr>),
            (js ''audience'',
             \<lparr>p_type = js ''string'',
              p_enum = Some [js ''technical'', js ''business'', js ''general'', js ''documentation''],
              p_description = js ''Target audience for optimization'',
              p_default = Some (JString (js ''general''))\<rparr>)],
         s_required = [js ''diagram_code'']\<rparr>\<rparr>"

definition create_workflow_diagram_tool :: Tool where
  "create_workflow_diagram_tool =
     \<lparr>t_name = js ''create_workflow_diagram'',
      t_description = js ''Create workflow diagrams from process descriptions or Git history'',
      t_inputSchema =
        \<lparr>s_type = js ''object'',
         s_properties =
           [(js ''workflow_description'',
             \<lparr>p_type = js ''string'',
              p_enum = None,
              p_description = js ''Description of the workflow or process'',
              p_default = None\<rparr>),
            (js ''workflow_type'',
             \<lparr>p_type = js ''string'',
              p_enum = Some [js ''git'', js ''cicd'', js ''business'', js ''development'', js ''deployment''],
              p_description = js ''Type of workflow to create'',
              p_default = None\<rparr>),
            (js ''include_decision_points'',
             \<lparr>p_type = js ''boolean'',
              p_enum = None,
              p_description = js ''Include decision points and branching logic'',
              p_default = Some (JBoolean True)\<rparr>),
            (js ''format'',
             \<lparr>p_type = js ''string'',
              p_enum = Some [js ''flowchart'', js ''sequence'', js ''state'', js ''gantt''],
              p_description = js ''Diagram format for the workflow'',
              p_default = Some (JString (js ''flowchart''))\<rparr>)],
         s_required = [js ''workflow_description'', js ''workflow_type'']\<rparr>\<rparr>"

definition export_diagram_formats_tool :: Tool where
  "export_diagram_formats_tool =
     \<lparr>t_name = js ''export_diagram_formats'',
      t_description = js ''Export Mermaid diagrams to various formats (SVG, PNG, PDF)'',
      t_inputSchema =
        \<lparr>s_type = js ''object'',
         s_properties =
           [(js ''diagram_code'',
             \<lparr>p_type = js ''string'',
              p_enum = None,
              p_description = js ''Mermaid diagram code to export'',
              p_default = None\<rparr>),
            (js ''format'',
             \<lparr>p_type = js ''string'',
              p_enum = Some [js ''svg'', js ''png'', js ''pdf'', js ''html''],
              p_description = js ''Export format'',
              p_default = None\<rparr>),
            (js ''output_path'',
             \<lparr>p_type = js ''string'',
              p_enum = None,
              p_description = js ''Optional output file path'',
              p_default = None\<rparr>),
            (js ''theme'',
             \<lparr>p_type = js ''string'',
              p_enum = Some [js ''default'', js ''dark'', js ''forest'', js ''neutral''],
              p_description = js ''Diagram theme'',
              p_default = Some (JString (js ''default''))\<rparr>),
            (js ''width'',
             \<lparr>p_type = js ''number'',
              p_enum = None,
              p_description = js ''Width for raster formats (PNG)'',
              p_default = Some (JNumber 1920)\<rparr>),
            (js ''height'',
             \<lparr>p_type = js ''number'',
              p_enum = None,
              p_description = js ''Height for raster formats (PNG)'',
              p_default = Some (JNumber 1080)\<rparr>)],
         s_required = [js ''diagram_code'', js ''format'']\<rparr>\<rparr>"

definition validate_diagram_syntax_tool :: Tool where
  "validate_diagram_syntax_tool =
     \<lparr>t_name = js ''validate_diagram_syntax'',
      t_description = js ''Validate Mermaid diagram syntax and provide error details'',
      t_inputSchema =
        \<lparr>s_type = js ''object'',
         s_properties =
           [(js ''diagram_code'',
             \<lparr>p_type = js ''string'',
              p_enum = None,
              p_description = js ''Mermaid diagram code to validate'',
              p_default = None\<rparr>),
            (js ''strict_mode'',
             \<lparr>p_type = js ''boolean'',
              p_enum = None,
              p_description = js ''Enable strict validation mode'',
              p_default = Some (JBoolean False)\<rparr>),
            (js ''provide_suggestions'',
             \<lparr>p_type = js ''boolean'',
              p_enum = None,
              p_description = js ''Provide syntax correction suggestions'',
              p_default = Some (JBoolean True)\<rparr>)],
         s_required = [js ''diagram_code'']\<rparr>\<rparr>"

definition listTools :: "Tool list" where
  "listTools =
     [generate_diagram_from_code_tool,
      analyze_diagram_structure_tool,
      suggest_diagram_improvements_tool,
      create_workflow_diagram_tool,
      export_diagram_formats_tool,
      validate_diagram_syntax_tool]"

subsection \<open>The call handler\<close>

text \<open>The \<open>switch\<close> inside the \<open>try\<close>: the handler matched by name, or the thrown error.\<close>

definition dispatch ::
  "platform \<Rightarrow> filesystem \<Rightarrow> jsstring \<Rightarrow> ToolArguments option
     \<Rightarrow> (thrown + ToolResponse) \<times> filesystem" where
  "dispatch pf fs name args =
     (if name = js ''generate_diagram_from_code'' then (generateDiagramFromCode args, fs)
      else if name = js ''analyze_diagram_structure'' then (analyzeDiagramStructure args, fs)
      else if name = js ''suggest_diagram_improvements'' then (suggestDiagramImprovements args, fs)
      else if name = js ''create_workflow_diagram'' then (createWorkflowDiagram pf args, fs)
      else if name = js ''export_diagram_formats'' then exportDiagramFormats pf fs args
      else if name = js ''validate_diagram_syntax'' then (validateDiagramSyntax args, fs)
      else (Inl (ErrorObject (js ''Unknown tool: '' @ name)), fs))"

text \<open>The \<open>catch\<close>: the error becomes the text of an ordinary response.\<close>

definition error_response :: "jsstring \<Rightarrow> thrown \<Rightarrow> ToolResponse" where
  "error_response name error =
     (let errorMessage = message_or error (js ''Unknown error occurred'') in
      \<lparr>content = [text_block (js ''Error executing '' @ name @ js '': '' @ errorMessage)]\<rparr>)"

definition callTool ::
  "platform \<Rightarrow> filesystem \<Rightarrow> jsstring \<Rightarrow> ToolArguments option \<Rightarrow> ToolResponse \<times> filesystem" where
  "callTool pf fs name args =
     (case dispatch pf fs name args of
        (Inr result, fs') \<Rightarrow> (result, fs')
      | (Inl error, fs') \<Rightarrow> (error_response name error, fs'))"

section \<open>Reading the listing and the handlers side by side\<close>

text \<open>What the listing declares for a property of a tool.\<close>

definition find_tool :: "jsstring \<Rightarrow> Tool option" where
  "find_tool name = find (\<lambda>t. t_name t = name) listTools"

definition declared_default :: "jsstring \<Rightarrow> jsstring \<Rightarrow> json option" where
  "declared_default name field =
     (case find_tool name of
        None \<Rightarrow> None
      | Some t \<Rightarrow>
          (case map_of (s_properties (t_inputSchema t)) field of
             None \<Rightarrow> None
           | Some p \<Rightarrow> p_default p))"

definition declared_required :: "jsstring \<Rightarrow> jsstring list" where
  "declared_required name =
     (case find_tool name of None \<Rightarrow> [] | Some t \<Rightarrow> s_required (t_inputSchema t))"

text \<open>\<open>args[field]\<close> as a JSON value.\<close>

definition argument :: "ToolArguments \<Rightarrow> jsstring \<Rightarrow> json option" where
  "argument a field =
     (if field = js ''code'' then map_option JString (a_code a)
      else if field = js ''diagram_type'' then map_option JString (a_diagram_type a)
      else if field = js ''language'' then map_option JString (a_language a)
      else if field = js ''include_details'' then map_option JBoolean (a_include_details a)
      else if field = js ''diagram_code'' then map_option JString (a_diagram_code a)
      else if field = js ''analysis_type'' then map_option JString (a_analysis_type a)
      else if field = js ''context'' then map_option JString (a_context a)
      else if field = js ''audience'' then map_option JString (a_audience a)
      else if field = js ''workflow_description'' then map_option JString (a_workflow_description a)
      else if field = js ''workflow_type'' then map_option JString (a_workflow_type a)
      else if field = js ''include_decision_points'' then map_option JBoolean (a_include_decision_points a)
      else if field = js ''format'' then map_option JString (a_format a)
      else if field = js ''output_path'' then map_option JString (a_output_path a)
      else if field = js ''theme'' then map_option JString (a_theme a)
      else if field = js ''width'' then map_option JNumber (a_width a)
      else if field = js ''height'' then map_option JNumber (a_height a)
      else if field = js ''strict_mode'' then map_option JBoolean (a_strict_mode a)
      else if field = js ''provide_suggestions'' then map_option JBoolean (a_provide_suggestions a)
      else None)"

text \<open>
  The variables a handler holds after its destructuring line, by name; \<open>None\<close> is
  \<open>undefined\<close>.
\<close>

definition handler_variables :: "jsstring \<Rightarrow> ToolArguments \<Rightarrow> (jsstring \<times> json option) list" where
  "handler_variables name a =
     (if name = js ''generate_diagram_from_code'' then
        (case generateDiagramFromCode_destructure a of
           (code, diagram_type, language, include_details) \<Rightarrow>
             [(js ''code'', map_option JString code),
              (js ''diagram_type'', Some (JString diagram_type)),
              (js ''language'', map_option JString language),
              (js ''include_details'', Some (JBoolean include_details))])
      else if name = js ''analyze_diagram_structure'' then
        (case analyzeDiagramStructure_destructure a of
           (diagram_code, analysis_type) \<Rightarrow>
             [(js ''diagram_code'', map_option JString diagram_code),
              (js ''analysis_type'', Some (JString analysis_type))])
      else if name = js ''suggest_diagram_improvements'' then
        (case suggestDiagramImprovements_destructure a of
           (diagram_code, context, audience) \<Rightarrow>
             [(js ''diagram_code'', map_option JString diagram_code),
              (js ''context'', map_option JString context),
              (js ''audience'', Some (JString audience))])
      else if name = js ''create_workflow_diagram'' then
        (case createWorkflowDiagram_destructure a of
           (workflow_description, workflow_type, include_decision_points, format) \<Rightarrow>
             [(js ''workflow_description'', map_option JString workflow_description),
              (js ''workflow_type'', map_option JString workflow_type),
              (js ''include_decision_points'', Some (JBoolean include_decision_points)),
              (js ''format'', Some (JString format))])
      else if name = js ''export_diagram_formats'' then
        (case exportDiagramFormats_destructure a of
           (diagram_code, format, output_path, theme, width, height) \<Rightarrow>
             [(js ''diagram_code'', map_option JString diagram_code),
              (js ''format'', map_option JString format),
              (js ''output_path'', map_option JString output_path),
              (js ''theme'', Some (JString theme)),
              (js ''width'', Some (JNumber width)),
              (js ''height'', Some (JNumber height))])
      else if name = js ''validate_diagram_syntax'' then
        (case validateDiagramSyntax_destructure a of
           (diagram_code, strict_mode, provide_suggestions) \<Rightarrow>
             [(js ''diagram_code'', map_option JString diagram_code),
              (js ''strict_mode'', Some (JBoolean strict_mode)),
              (js ''provide_suggestions'', Some (JBoolean provide_suggestions))])
      else [])"

section \<open>Reading a generated document\<close>


section \<open>A platform and requests to evaluate the program on\<close>

text \<open>
  One platform for the examples: paths resolve against \<open>/work\<close>, and the file
  \<open>locked/diagram\<close> cannot be written. No example prints a number outside the safe range.
\<close>

definition demo_platform :: platform where
  "demo_platform =
     \<lparr>path_resolve = (\<lambda>p. js ''/work/'' @ p),
      path_dirname = (\<lambda>p. js ''.''),
      toUpperCase = map (\<lambda>u. if 97 \<le> u \<and> u \<le> 122 then u - 32 else u),
      mkdir_error = (\<lambda>d. None),
      write_error = (\<lambda>p. if p = js ''locked/diagram'' then Some (js ''EACCES: permission denied'')
                         else None),
      number_toString = (\<lambda>i. js ''1e+21'')\<rparr>"

definition empty_filesystem :: filesystem where
  "empty_filesystem = \<lparr>files = (\<lambda>p. None), directories = {}\<rparr>"

definition demo_options :: "string \<Rightarrow> jsstring option \<Rightarrow> ExportOptions" where
  "demo_options format path =
     \<lparr>o_diagramCode = Some (js (''flowchart TD\<newline>'' @ ''A-->B'')), o_format = Some (js format),
      o_theme = Some (js ''dark''), o_width = None, o_height = None, o_outputPath = path\<rparr>"

section \<open>Helper lemmas\<close>

subsection \<open>Strings\<close>


lemma includes_mid: "includes_str (a @ t @ b) t"
  by (simp add: includes_str_def)

lemma truthy_Some: "truthy (Some p) = (p \<noteq> [])"
  by (simp add: truthy_def)

lemma truthy_None: "truthy None = False"
  by (simp add: truthy_def)

lemma truthy_cases: "truthy v \<Longrightarrow> \<exists>p. v = Some p \<and> p \<noteq> []"
  by (cases v) (simp_all add: truthy_def)

subsection \<open>The renderer, branch by branch\<close>

lemma catch_rethrow_id:
  "(case x of (Inl error, fs') \<Rightarrow> (Inl error, fs') | (Inr result, fs') \<Rightarrow> (Inr result, fs')) = x"
  by (cases x; cases "fst x") auto

lemma generateSVGTemplate_Some: "\<exists>svg. generateSVGTemplate (Some d) theme = Inr svg"
  by (simp add: generateSVGTemplate_def Let_def)

lemma generateSVGTemplate_None: "generateSVGTemplate None theme = Inl (cannot_read ''slice'')"
  by (simp add: generateSVGTemplate_def Let_def)

lemma writeFileSync_ok:
  "write_error pf p = None \<Longrightarrow>
   writeFileSync pf fs p c = Inr (fs\<lparr>files := (files fs)(path_resolve pf p \<mapsto> utf8_encode c)\<rparr>)"
  by (simp add: writeFileSync_def)

lemma writeFileSync_fail:
  "write_error pf p = Some m \<Longrightarrow> writeFileSync pf fs p c = Inl (ErrorObject m)"
  by (simp add: writeFileSync_def)

lemma renderSVG_inline:
  "\<not> truthy op \<Longrightarrow> generateSVGTemplate dc theme = Inr svg \<Longrightarrow>
   renderSVG pf fs dc theme op =
     (Inr \<lparr>success = True, outputPath = None,
           base64Data = Some (base64_encode (utf8_encode svg)),
           size_str = decimal (round_div_1024 (length svg)) @ js ''KB'',
           details = js ''SVG generated as base64 with '' @ theme @ js '' theme''\<rparr>, fs)"
  by (simp add: renderSVG_def)

lemma renderSVG_written:
  "p \<noteq> [] \<Longrightarrow> write_error pf p = None \<Longrightarrow> generateSVGTemplate dc theme = Inr svg \<Longrightarrow>
   renderSVG pf fs dc theme (Some p) =
     (Inr \<lparr>success = True, outputPath = Some (path_resolve pf p), base64Data = None,
           size_str = decimal (round_div_1024 (length svg)) @ js ''KB'',
           details = js ''SVG exported successfully with '' @ theme @ js '' theme''\<rparr>,
      (ensureDirectoryExists pf fs p)
        \<lparr>files := (files (ensureDirectoryExists pf fs p))(path_resolve pf p \<mapsto> utf8_encode svg)\<rparr>)"
  by (simp add: renderSVG_def truthy_Some writeFileSync_ok Let_def)

lemma renderSVG_write_fail:
  "p \<noteq> [] \<Longrightarrow> write_error pf p = Some m \<Longrightarrow> generateSVGTemplate dc theme = Inr svg \<Longrightarrow>
   renderSVG pf fs dc theme (Some p) = (Inl (ErrorObject m), ensureDirectoryExists pf fs p)"
  by (simp add: renderSVG_def truthy_Some writeFileSync_fail Let_def)

lemma renderHTML_inline:
  "\<not> truthy op \<Longrightarrow>
   renderHTML pf fs dc theme op =
     (Inr \<lparr>success = True, outputPath = None,
           base64Data = Some (base64_encode (utf8_encode (generateHTMLTemplate dc theme))),
           size_str = decimal (round_div_1024 (length (generateHTMLTemplate dc theme))) @ js ''KB'',
           details = js ''Interactive HTML generated with '' @ theme @ js '' theme''\<rparr>, fs)"
  by (simp add: renderHTML_def Let_def)

lemma renderHTML_written:
  "p \<noteq> [] \<Longrightarrow> write_error pf p = None \<Longrightarrow>
   renderHTML pf fs dc theme (Some p) =
     (Inr \<lparr>success = True, outputPath = Some (path_resolve pf p), base64Data = None,
           size_str = decimal (round_div_1024 (length (generateHTMLTemplate dc theme))) @ js ''KB'',
           details = js ''Interactive HTML exported with '' @ theme @ js '' theme''\<rparr>,
      (ensureDirectoryExists pf fs p)
        \<lparr>files := (files (ensureDirectoryExists pf fs p))
                   (path_resolve pf p \<mapsto> utf8_encode (generateHTMLTemplate dc theme))\<rparr>)"
  by (simp add: renderHTML_def truthy_Some writeFileSync_ok Let_def)

lemma renderHTML_write_fail:
  "p \<noteq> [] \<Longrightarrow> write_error pf p = Some m \<Longrightarrow>
   renderHTML pf fs dc theme (Some p) = (Inl (ErrorObject m), ensureDirectoryExists pf fs p)"
  by (simp add: renderHTML_def truthy_Some writeFileSync_fail Let_def)

lemma renderPNG_inline:
  "\<not> truthy op \<Longrightarrow>
   renderPNG pf fs dc theme w h op =
     (Inr \<lparr>success = True, outputPath = None,
           base64Data = Some (js ''iVBORw0KGgoAAAANSUhEUgAAAAEAAAABCAYAAAAfFcSJAAAADUlEQVR42mNkYPhfDwAChwGA60e6kgAAAABJRU5ErkJggg==''),
           size_str = js ''~150KB'',
           details = (js ''PNG would be rendered at '' @ template_number pf w @ js ''x'' @ template_number pf h @ js '' with '' @ theme @ js '' theme'')\<rparr>, fs)"
  by (simp add: renderPNG_def Let_def)

lemma renderPNG_written:
  "p \<noteq> [] \<Longrightarrow> write_error pf p = None \<Longrightarrow>
   renderPNG pf fs (Some d) theme w h (Some p) =
     (Inr \<lparr>success = True, outputPath = Some (path_resolve pf p), base64Data = None,
           size_str = js ''~150KB'',
           details = (js ''PNG would be rendered at '' @ template_number pf w @ js ''x'' @ template_number pf h @ js '' with '' @ theme @ js '' theme'')\<rparr>,
      (ensureDirectoryExists pf fs p)
        \<lparr>files := (files (ensureDirectoryExists pf fs p))
                   (path_resolve pf p \<mapsto>
                      utf8_encode (js ''PNG export placeholder for diagram: '' @ take 50 d @ js ''...''))\<rparr>)"
  by (simp add: renderPNG_def truthy_Some writeFileSync_ok Let_def slice0_def)

lemma renderPNG_write_fail:
  "p \<noteq> [] \<Longrightarrow> write_error pf p = Some m \<Longrightarrow>
   renderPNG pf fs (Some d) theme w h (Some p) = (Inl (ErrorObject m), ensureDirectoryExists pf fs p)"
  by (simp add: renderPNG_def truthy_Some writeFileSync_fail Let_def)

lemma renderPDF_inline:
  "\<not> truthy op \<Longrightarrow>
   renderPDF pf fs dc theme op =
     (Inr \<lparr>success = True, outputPath = None,
           base64Data = Some (js ''JVBERi0xLjQKJeL+LywKMSAwIG9iago8PAovVHlwZSAvQ2F0YWxvZwovUGFnZXMgMiAwIFIKPj4KZW5kb2JqCjIgMCBvYmoKPDwKL1R5cGUgL1BhZ2VzCi9LaWRzIFsgXQovQ291bnQgMAo+PgplbmRvYmoKCnRyYWlsZXIKPDwKL1NpemUgMgovUm9vdCAxIDAgUgo+PgpzdGFydHhyZWYKMTU4CiUlRU9G''),
           size_str = js ''~200KB'',
           details = js ''PDF would be generated with '' @ theme @ js '' theme''\<rparr>, fs)"
  by (simp add: renderPDF_def Let_def)

lemma renderPDF_written:
  "p \<noteq> [] \<Longrightarrow> write_error pf p = None \<Longrightarrow>
   renderPDF pf fs (Some d) theme (Some p) =
     (Inr \<lparr>success = True, outputPath = Some (path_resolve pf p), base64Data = None,
           size_str = js ''~200KB'',
           details = js ''PDF would be generated with '' @ theme @ js '' theme''\<rparr>,
      (ensureDirectoryExists pf fs p)
        \<lparr>files := (files (ensureDirectoryExists pf fs p))
                   (path_resolve pf p \<mapsto>
                      utf8_encode (js ''PDF export placeholder for diagram: '' @ take 50 d @ js ''...''))\<rparr>)"
  by (simp add: renderPDF_def truthy_Some writeFileSync_ok Let_def slice0_def)

lemma renderPDF_write_fail:
  "p \<noteq> [] \<Longrightarrow> write_error pf p = Some m \<Longrightarrow>
   renderPDF pf fs (Some d) theme (Some p) = (Inl (ErrorObject m), ensureDirectoryExists pf fs p)"
  by (simp add: renderPDF_def truthy_Some writeFileSync_fail Let_def)

lemma render_missing_code:
  "p \<noteq> [] \<Longrightarrow> renderPNG pf fs None theme w h (Some p) = (Inl (cannot_read ''slice''), fs)"
  "p \<noteq> [] \<Longrightarrow> renderPDF pf fs None theme (Some p) = (Inl (cannot_read ''slice''), fs)"
  "renderSVG pf fs None theme op = (Inl (cannot_read ''slice''), fs)"
  by (simp_all add: renderPNG_def renderPDF_def renderSVG_def truthy_Some Let_def
      generateSVGTemplate_None)

subsection \<open>\<open>exportDiagram\<close> by format\<close>

lemma format_literals_distinct:
  "js ''svg'' \<noteq> js ''png''" "js ''svg'' \<noteq> js ''pdf''" "js ''svg'' \<noteq> js ''html''"
  "js ''png'' \<noteq> js ''pdf''" "js ''png'' \<noteq> js ''html''" "js ''pdf'' \<noteq> js ''html''"
  "js ''png'' \<noteq> js ''svg''" "js ''pdf'' \<noteq> js ''svg''" "js ''html'' \<noteq> js ''svg''"
  "js ''pdf'' \<noteq> js ''png''" "js ''html'' \<noteq> js ''png''" "js ''html'' \<noteq> js ''pdf''"
  by (simp_all add: js_def)

lemma exportDiagram_svg:
  "o_format opts = Some (js ''svg'') \<Longrightarrow>
   exportDiagram pf fs opts =
     renderSVG pf fs (o_diagramCode opts) (or_default (o_theme opts) (js ''default''))
       (o_outputPath opts)"
  by (simp add: exportDiagram_def Let_def catch_rethrow_id)

lemma exportDiagram_png:
  "o_format opts = Some (js ''png'') \<Longrightarrow>
   exportDiagram pf fs opts =
     renderPNG pf fs (o_diagramCode opts) (or_default (o_theme opts) (js ''default''))
       (or_default (o_width opts) 1920) (or_default (o_height opts) 1080) (o_outputPath opts)"
  by (simp add: exportDiagram_def Let_def catch_rethrow_id format_literals_distinct)

lemma exportDiagram_pdf:
  "o_format opts = Some (js ''pdf'') \<Longrightarrow>
   exportDiagram pf fs opts =
     renderPDF pf fs (o_diagramCode opts) (or_default (o_theme opts) (js ''default''))
       (o_outputPath opts)"
  by (simp add: exportDiagram_def Let_def catch_rethrow_id format_literals_distinct)

lemma exportDiagram_html:
  "o_format opts = Some (js ''html'') \<Longrightarrow>
   exportDiagram pf fs opts =
     renderHTML pf fs (o_diagramCode opts) (or_default (o_theme opts) (js ''default''))
       (o_outputPath opts)"
  by (simp add: exportDiagram_def Let_def catch_rethrow_id format_literals_distinct)

lemma exportDiagram_unsupported:
  "o_format opts \<notin> {Some (js ''svg''), Some (js ''png''), Some (js ''pdf''), Some (js ''html'')} \<Longrightarrow>
   exportDiagram pf fs opts =
     (Inl (ErrorObject (js ''Unsupported format: '' @ template_string (o_format opts))), fs)"
  by (simp add: exportDiagram_def Let_def)

lemma supported_cases:
  assumes "f \<in> {Some (js ''svg''), Some (js ''png''), Some (js ''pdf''), Some (js ''html'')}"
  obtains "f = Some (js ''svg'')" | "f = Some (js ''png'')" | "f = Some (js ''pdf'')"
    | "f = Some (js ''html'')"
  using assms by blast

section \<open>The export pipeline: claims C2, C5, C8 and C9\<close>

lemma export_mode_svg:
  assumes "renderSVG pf fs dc theme op = (Inr r, fs')"
  shows "success r \<and>
         (if truthy op then outputPath r = Some (path_resolve pf (the op)) \<and> base64Data r = None
          else outputPath r = None \<and> base64Data r \<noteq> None)"
proof (cases dc)
  case None
  with assms show ?thesis by (simp add: render_missing_code)
next
  case (Some d)
  obtain svg where svg: "generateSVGTemplate dc theme = Inr svg"
    using generateSVGTemplate_Some Some by blast
  show ?thesis
  proof (cases "truthy op")
    case False
    with assms svg show ?thesis by (auto simp: renderSVG_inline)
  next
    case True
    then obtain p where p: "op = Some p" "p \<noteq> []" using truthy_cases by blast
    show ?thesis
    proof (cases "write_error pf p")
      case None
      with assms svg p True show ?thesis by (auto simp: renderSVG_written)
    next
      case (Some m)
      with assms svg p show ?thesis by (simp add: renderSVG_write_fail)
    qed
  qed
qed

lemma export_mode_html:
  assumes "renderHTML pf fs dc theme op = (Inr r, fs')"
  shows "success r \<and>
         (if truthy op then outputPath r = Some (path_resolve pf (the op)) \<and> base64Data r = None
          else outputPath r = None \<and> base64Data r \<noteq> None)"
proof (cases "truthy op")
  case False
  with assms show ?thesis by (auto simp: renderHTML_inline)
next
  case True
  then obtain p where p: "op = Some p" "p \<noteq> []" using truthy_cases by blast
  show ?thesis
  proof (cases "write_error pf p")
    case None
    with assms p True show ?thesis by (auto simp: renderHTML_written)
  next
    case (Some m)
    with assms p show ?thesis by (simp add: renderHTML_write_fail)
  qed
qed

lemma export_mode_png:
  assumes "renderPNG pf fs dc theme w h op = (Inr r, fs')"
  shows "success r \<and>
         (if truthy op then outputPath r = Some (path_resolve pf (the op)) \<and> base64Data r = None
          else outputPath r = None \<and> base64Data r \<noteq> None)"
proof (cases "truthy op")
  case False
  with assms show ?thesis by (auto simp: renderPNG_inline)
next
  case True
  then obtain p where p: "op = Some p" "p \<noteq> []" using truthy_cases by blast
  show ?thesis
  proof (cases dc)
    case None
    with assms p show ?thesis by (simp add: render_missing_code)
  next
    case (Some d)
    show ?thesis
    proof (cases "write_error pf p")
      case None
      with assms p True Some show ?thesis by (auto simp: renderPNG_written)
    next
      case (Some m)
      with assms p \<open>dc = Some d\<close> show ?thesis by (simp add: renderPNG_write_fail)
    qed
  qed
qed

lemma export_mode_pdf:
  assumes "renderPDF pf fs dc theme op = (Inr r, fs')"
  shows "success r \<and>
         (if truthy op then outputPath r = Some (path_resolve pf (the op)) \<and> base64Data r = None
          else outputPath r = None \<and> base64Data r \<noteq> None)"
proof (cases "truthy op")
  case False
  with assms show ?thesis by (auto simp: renderPDF_inline)
next
  case True
  then obtain p where p: "op = Some p" "p \<noteq> []" using truthy_cases by blast
  show ?thesis
  proof (cases dc)
    case None
    with assms p show ?thesis by (simp add: render_missing_code)
  next
    case (Some d)
    show ?thesis
    proof (cases "write_error pf p")
      case None
      with assms p True Some show ?thesis by (auto simp: renderPDF_written)
    next
      case (Some m)
      with assms p \<open>dc = Some d\<close> show ?thesis by (simp add: renderPDF_write_fail)
    qed
  qed
qed

text \<open>
Claim C2, as amended. Whenever the export returns a result, the result reports success and
  carries exactly one of the two payload fields: for a truthy (present and non-empty) output
  path it has \<open>outputPath\<close>, the path resolved by \<open>path.resolve\<close>, and no
  \<open>base64Data\<close>; for an absent or empty output path it has \<open>base64Data\<close> and no
  \<open>outputPath\<close>.
\<close>

theorem export_output_mode:
  assumes "fst (exportDiagram pf fs opts) = Inr r"
  shows "success r \<and>
         (if truthy (o_outputPath opts)
          then outputPath r = Some (path_resolve pf (the (o_outputPath opts))) \<and> base64Data r = None
          else outputPath r = None \<and> base64Data r \<noteq> None)"
proof -
  obtain fs' where run: "exportDiagram pf fs opts = (Inr r, fs')"
    using assms by (cases "exportDiagram pf fs opts") simp
  show ?thesis
  proof (cases "o_format opts \<in> {Some (js ''svg''), Some (js ''png''), Some (js ''pdf''), Some (js ''html'')}")
    case False
    with run show ?thesis by (simp add: exportDiagram_unsupported)
  next
    case True
    then show ?thesis
    proof (cases rule: supported_cases)
      case 1
      with run show ?thesis using export_mode_svg by (simp add: exportDiagram_svg)
    next
      case 2
      with run show ?thesis using export_mode_png by (simp add: exportDiagram_png)
    next
      case 3
      with run show ?thesis using export_mode_pdf by (simp add: exportDiagram_pdf)
    next
      case 4
      with run show ?thesis using export_mode_html by (simp add: exportDiagram_html)
    qed
  qed
qed

text \<open>
Claim C2 as stated fails for a supplied output path that is the empty string: the guard
  \<open>if (outputPath)\<close> is false, and the result carries \<open>base64Data\<close> and no
  \<open>outputPath\<close>.
\<close>

theorem export_empty_output_path_counterexample:
  "fst (exportDiagram demo_platform empty_filesystem (demo_options ''png'' (Some []))) =
     Inr \<lparr>success = True, outputPath = None,
          base64Data = Some (js ''iVBORw0KGgoAAAANSUhEUgAAAAEAAAABCAYAAAAfFcSJAAAADUlEQVR42mNkYPhfDwAChwGA60e6kgAAAABJRU5ErkJggg==''),
          size_str = js ''~150KB'',
          details = js ''PNG would be rendered at 1920x1080 with dark theme''\<rparr>"
  by (simp add: exportDiagram_png demo_options_def renderPNG_inline truthy_Some or_default_def
      template_number_def number_string_def decimal.simps js_def)

lemma demo_pdf_written:
  "fst (exportDiagram demo_platform empty_filesystem (demo_options ''pdf'' (Some (js ''out.pdf'')))) =
     Inr \<lparr>success = True, outputPath = Some (js ''/work/out.pdf''), base64Data = None,
          size_str = js ''~200KB'',
          details = js ''PDF would be generated with dark theme''\<rparr>"
  by (simp add: exportDiagram_pdf demo_options_def renderPDF_written or_default_def
      demo_platform_def js_def)

text \<open>
The theorem at a PDF export to \<open>out.pdf\<close>.
\<close>

theorem export_output_mode_witness:
  "fst (exportDiagram demo_platform empty_filesystem (demo_options ''pdf'' (Some (js ''out.pdf'')))) =
     Inr \<lparr>success = True, outputPath = Some (js ''/work/out.pdf''), base64Data = None,
          size_str = js ''~200KB'',
          details = js ''PDF would be generated with dark theme''\<rparr>
   \<and> truthy (o_outputPath (demo_options ''pdf'' (Some (js ''out.pdf''))))
   \<and> path_resolve demo_platform (the (o_outputPath (demo_options ''pdf'' (Some (js ''out.pdf''))))) =
       js ''/work/out.pdf''"
  using export_output_mode [OF demo_pdf_written] demo_pdf_written
  by (simp add: demo_options_def truthy_Some js_def split: if_splits)

lemma render_outcomes:
  "truthy op \<Longrightarrow>
   map_sum id success (fst (renderSVG pf fs (Some d) theme op)) =
     (case write_error pf (the op) of Some m \<Rightarrow> Inl (ErrorObject m) | None \<Rightarrow> Inr True)"
  "truthy op \<Longrightarrow>
   map_sum id success (fst (renderPNG pf fs (Some d) theme w h op)) =
     (case write_error pf (the op) of Some m \<Rightarrow> Inl (ErrorObject m) | None \<Rightarrow> Inr True)"
  "truthy op \<Longrightarrow>
   map_sum id success (fst (renderPDF pf fs (Some d) theme op)) =
     (case write_error pf (the op) of Some m \<Rightarrow> Inl (ErrorObject m) | None \<Rightarrow> Inr True)"
  "truthy op \<Longrightarrow>
   map_sum id success (fst (renderHTML pf fs dc theme op)) =
     (case write_error pf (the op) of Some m \<Rightarrow> Inl (ErrorObject m) | None \<Rightarrow> Inr True)"
proof -
  assume t: "truthy op"
  then obtain p where p: "op = Some p" "p \<noteq> []" using truthy_cases by blast
  obtain svg where svg: "generateSVGTemplate (Some d) theme = Inr svg"
    using generateSVGTemplate_Some by blast
  show "map_sum id success (fst (renderSVG pf fs (Some d) theme op)) =
     (case write_error pf (the op) of Some m \<Rightarrow> Inl (ErrorObject m) | None \<Rightarrow> Inr True)"
    using p svg by (cases "write_error pf p") (simp_all add: renderSVG_written renderSVG_write_fail)
  show "map_sum id success (fst (renderPNG pf fs (Some d) theme w h op)) =
     (case write_error pf (the op) of Some m \<Rightarrow> Inl (ErrorObject m) | None \<Rightarrow> Inr True)"
    using p by (cases "write_error pf p") (simp_all add: renderPNG_written renderPNG_write_fail)
  show "map_sum id success (fst (renderPDF pf fs (Some d) theme op)) =
     (case write_error pf (the op) of Some m \<Rightarrow> Inl (ErrorObject m) | None \<Rightarrow> Inr True)"
    using p by (cases "write_error pf p") (simp_all add: renderPDF_written renderPDF_write_fail)
  show "map_sum id success (fst (renderHTML pf fs dc theme op)) =
     (case write_error pf (the op) of Some m \<Rightarrow> Inl (ErrorObject m) | None \<Rightarrow> Inr True)"
    using p by (cases "write_error pf p") (simp_all add: renderHTML_written renderHTML_write_fail)
qed

lemma render_inline_outcomes:
  "\<not> truthy op \<Longrightarrow> map_sum id success (fst (renderSVG pf fs (Some d) theme op)) = Inr True"
  "\<not> truthy op \<Longrightarrow> map_sum id success (fst (renderPNG pf fs dc theme w h op)) = Inr True"
  "\<not> truthy op \<Longrightarrow> map_sum id success (fst (renderPDF pf fs dc theme op)) = Inr True"
  "\<not> truthy op \<Longrightarrow> map_sum id success (fst (renderHTML pf fs dc theme op)) = Inr True"
proof -
  assume t: "\<not> truthy op"
  obtain svg where svg: "generateSVGTemplate (Some d) theme = Inr svg"
    using generateSVGTemplate_Some by blast
  show "map_sum id success (fst (renderSVG pf fs (Some d) theme op)) = Inr True"
    using t svg by (simp add: renderSVG_inline)
  show "map_sum id success (fst (renderPNG pf fs dc theme w h op)) = Inr True"
    using t by (simp add: renderPNG_inline)
  show "map_sum id success (fst (renderPDF pf fs dc theme op)) = Inr True"
    using t by (simp add: renderPDF_inline)
  show "map_sum id success (fst (renderHTML pf fs dc theme op)) = Inr True"
    using t by (simp add: renderHTML_inline)
qed

text \<open>
Claim C5, as amended. For options that carry a diagram source, the export fails in exactly
  two cases: the format is none of the four literals (the error names the format), or a
  truthy output path is given and writing the file fails (the error of the write is thrown
  on). In every other case it returns a result whose \<open>success\<close> is true.
\<close>

theorem export_failure_conditions:
  "map_sum id success (fst (exportDiagram pf fs (opts\<lparr>o_diagramCode := Some d\<rparr>))) =
     (if o_format opts \<notin> {Some (js ''svg''), Some (js ''png''), Some (js ''pdf''), Some (js ''html'')}
      then Inl (ErrorObject (js ''Unsupported format: '' @ template_string (o_format opts)))
      else if truthy (o_outputPath opts)
      then (case write_error pf (the (o_outputPath opts)) of
              Some m \<Rightarrow> Inl (ErrorObject m)
            | None \<Rightarrow> Inr True)
      else Inr True)"
proof (cases "o_format opts \<in> {Some (js ''svg''), Some (js ''png''), Some (js ''pdf''), Some (js ''html'')}")
  case False
  then show ?thesis by (simp add: exportDiagram_unsupported)
next
  case True
  then show ?thesis
  proof (cases rule: supported_cases)
    case 1
    then show ?thesis
      by (cases "truthy (o_outputPath opts)")
        (simp_all add: exportDiagram_svg render_outcomes render_inline_outcomes)
  next
    case 2
    then show ?thesis
      by (cases "truthy (o_outputPath opts)")
        (simp_all add: exportDiagram_png render_outcomes render_inline_outcomes)
  next
    case 3
    then show ?thesis
      by (cases "truthy (o_outputPath opts)")
        (simp_all add: exportDiagram_pdf render_outcomes render_inline_outcomes)
  next
    case 4
    then show ?thesis
      by (cases "truthy (o_outputPath opts)")
        (simp_all add: exportDiagram_html render_outcomes render_inline_outcomes)
  qed
qed

text \<open>
Claim C5 as stated fails when the file cannot be written: the format is \<open>svg\<close>, and
  the export throws the error of \<open>writeFileSync\<close>.
\<close>

theorem export_write_failure_counterexample:
  "o_format (demo_options ''svg'' (Some (js ''locked/diagram''))) = Some (js ''svg'')
   \<and> fst (exportDiagram demo_platform empty_filesystem
            (demo_options ''svg'' (Some (js ''locked/diagram'')))) =
       Inl (ErrorObject (js ''EACCES: permission denied''))"
proof -
  obtain svg where "generateSVGTemplate (Some (js (''flowchart TD\<newline>'' @ ''A-->B''))) (js ''dark'') = Inr svg"
    using generateSVGTemplate_Some by blast
  then show ?thesis
    by (simp add: exportDiagram_svg demo_options_def or_default_def renderSVG_write_fail
        demo_platform_def js_def)
qed

text \<open>
Claim C8, as amended. For every diagram source, the empty one included: a PNG or PDF
  export without a truthy output path returns the constant base64 payload and the fixed size
  string, and leaves the file system as it is; with an output path whose write succeeds it
  writes the short text placeholder (the first 50 code units of the source) to that path;
  with an output path whose write fails it throws the error of the write.
\<close>

theorem placeholder_exports:
  assumes "o_diagramCode opts = Some d"
  shows
    "(o_format opts = Some (js ''png'') \<and> \<not> truthy (o_outputPath opts) \<longrightarrow>
        (\<exists>r. exportDiagram pf fs opts = (Inr r, fs) \<and> success r \<and> outputPath r = None
           \<and> base64Data r = Some (js ''iVBORw0KGgoAAAANSUhEUgAAAAEAAAABCAYAAAAfFcSJAAAADUlEQVR42mNkYPhfDwAChwGA60e6kgAAAABJRU5ErkJggg=='')
           \<and> size_str r = js ''~150KB''))
   \<and> (o_format opts = Some (js ''pdf'') \<and> \<not> truthy (o_outputPath opts) \<longrightarrow>
        (\<exists>r. exportDiagram pf fs opts = (Inr r, fs) \<and> success r \<and> outputPath r = None
           \<and> base64Data r = Some (js ''JVBERi0xLjQKJeL+LywKMSAwIG9iago8PAovVHlwZSAvQ2F0YWxvZwovUGFnZXMgMiAwIFIKPj4KZW5kb2JqCjIgMCBvYmoKPDwKL1R5cGUgL1BhZ2VzCi9LaWRzIFsgXQovQ291bnQgMAo+PgplbmRvYmoKCnRyYWlsZXIKPDwKL1NpemUgMgovUm9vdCAxIDAgUgo+PgpzdGFydHhyZWYKMTU4CiUlRU9G'')
           \<and> size_str r = js ''~200KB''))
   \<and> (\<forall>p. o_format opts = Some (js ''png'') \<and> o_outputPath opts = Some p \<and> p \<noteq> []
            \<and> write_error pf p = None \<longrightarrow>
        (\<exists>r fs'. exportDiagram pf fs opts = (Inr r, fs') \<and> success r \<and> size_str r = js ''~150KB''
           \<and> files fs' (path_resolve pf p) =
               Some (utf8_encode (js ''PNG export placeholder for diagram: '' @ take 50 d @ js ''...''))))
   \<and> (\<forall>p. o_format opts = Some (js ''pdf'') \<and> o_outputPath opts = Some p \<and> p \<noteq> []
            \<and> write_error pf p = None \<longrightarrow>
        (\<exists>r fs'. exportDiagram pf fs opts = (Inr r, fs') \<and> success r \<and> size_str r = js ''~200KB''
           \<and> files fs' (path_resolve pf p) =
               Some (utf8_encode (js ''PDF export placeholder for diagram: '' @ take 50 d @ js ''...''))))
   \<and> (\<forall>p m. (o_format opts = Some (js ''png'') \<or> o_format opts = Some (js ''pdf''))
            \<and> o_outputPath opts = Some p \<and> p \<noteq> [] \<and> write_error pf p = Some m \<longrightarrow>
        fst (exportDiagram pf fs opts) = Inl (ErrorObject m))"
  using assms
  by (auto simp: exportDiagram_png exportDiagram_pdf renderPNG_inline renderPDF_inline
      renderPNG_written renderPDF_written renderPNG_write_fail renderPDF_write_fail)

lemma written_file:
  assumes "p \<noteq> []" and "exportDiagram pf fs (opts\<lparr>o_outputPath := Some p\<rparr>) = (Inr r, fs')"
  shows "files fs' (path_resolve pf p) \<noteq> None \<and>
         files fs' (path_resolve pf p) =
           (if o_format opts = Some (js ''svg'')
            then map_option utf8_encode
                   (case generateSVGTemplate (o_diagramCode opts) (or_default (o_theme opts) (js ''default''))
                    of Inl e \<Rightarrow> None | Inr svg \<Rightarrow> Some svg)
            else if o_format opts = Some (js ''png'')
            then Some (utf8_encode (js ''PNG export placeholder for diagram: ''
                         @ take 50 (the (o_diagramCode opts)) @ js ''...''))
            else if o_format opts = Some (js ''pdf'')
            then Some (utf8_encode (js ''PDF export placeholder for diagram: ''
                         @ take 50 (the (o_diagramCode opts)) @ js ''...''))
            else Some (utf8_encode (generateHTMLTemplate (o_diagramCode opts)
                         (or_default (o_theme opts) (js ''default'')))))"
proof (cases "o_format opts \<in> {Some (js ''svg''), Some (js ''png''), Some (js ''pdf''), Some (js ''html'')}")
  case False
  with assms show ?thesis by (simp add: exportDiagram_unsupported)
next
  case True
  then show ?thesis
  proof (cases rule: supported_cases)
    case 1
    show ?thesis
    proof (cases "o_diagramCode opts")
      case None
      with assms 1 show ?thesis by (simp add: exportDiagram_svg render_missing_code)
    next
      case (Some d)
      obtain svg where svg: "generateSVGTemplate (Some d) (or_default (o_theme opts) (js ''default'')) = Inr svg"
        using generateSVGTemplate_Some by blast
      show ?thesis
      proof (cases "write_error pf p")
        case None
        with assms 1 Some svg show ?thesis
          by (auto simp: exportDiagram_svg renderSVG_written)
      next
        case (Some m)
        with assms 1 \<open>o_diagramCode opts = Some d\<close> svg show ?thesis
          by (simp add: exportDiagram_svg renderSVG_write_fail)
      qed
    qed
  next
    case 2
    show ?thesis
    proof (cases "o_diagramCode opts")
      case None
      with assms 2 show ?thesis by (simp add: exportDiagram_png render_missing_code)
    next
      case (Some d)
      show ?thesis
      proof (cases "write_error pf p")
        case None
        with assms 2 Some show ?thesis
          by (auto simp: exportDiagram_png renderPNG_written format_literals_distinct)
      next
        case (Some m)
        with assms 2 \<open>o_diagramCode opts = Some d\<close> show ?thesis
          by (simp add: exportDiagram_png renderPNG_write_fail)
      qed
    qed
  next
    case 3
    show ?thesis
    proof (cases "o_diagramCode opts")
      case None
      with assms 3 show ?thesis by (simp add: exportDiagram_pdf render_missing_code)
    next
      case (Some d)
      show ?thesis
      proof (cases "write_error pf p")
        case None
        with assms 3 Some show ?thesis
          by (auto simp: exportDiagram_pdf renderPDF_written format_literals_distinct)
      next
        case (Some m)
        with assms 3 \<open>o_diagramCode opts = Some d\<close> show ?thesis
          by (simp add: exportDiagram_pdf renderPDF_write_fail)
      qed
    qed
  next
    case 4
    show ?thesis
    proof (cases "write_error pf p")
      case None
      with assms 4 show ?thesis
        by (auto simp: exportDiagram_html renderHTML_written format_literals_distinct)
    next
      case (Some m)
      with assms 4 show ?thesis
        by (simp add: exportDiagram_html renderHTML_write_fail)
    qed
  qed
qed

lemma inline_export_ignores_filesystem:
  "fst (exportDiagram pf fs1 (opts\<lparr>o_outputPath := None\<rparr>)) =
   fst (exportDiagram pf fs2 (opts\<lparr>o_outputPath := None\<rparr>))"
proof (cases "o_format opts \<in> {Some (js ''svg''), Some (js ''png''), Some (js ''pdf''), Some (js ''html'')}")
  case False
  then show ?thesis by (simp add: exportDiagram_unsupported)
next
  case True
  then show ?thesis
  proof (cases rule: supported_cases)
    case 1
    then show ?thesis
      by (cases "generateSVGTemplate (o_diagramCode opts) (or_default (o_theme opts) (js ''default''))")
        (simp_all add: exportDiagram_svg renderSVG_def truthy_None)
  next
    case 2
    then show ?thesis by (simp add: exportDiagram_png renderPNG_inline truthy_None)
  next
    case 3
    then show ?thesis by (simp add: exportDiagram_pdf renderPDF_inline truthy_None)
  next
    case 4
    then show ?thesis by (simp add: exportDiagram_html renderHTML_inline truthy_None)
  qed
qed

text \<open>
Claim C9. Two exports with the same options, each to its own non-empty output path and from
  any two states of the file system, that both return a result leave the same bytes at their
  two paths; and without an output path the two exports return the same outcome.
\<close>

theorem export_deterministic:
  assumes "p1 \<noteq> []" and "p2 \<noteq> []"
    and "fst (exportDiagram pf fs1 (opts\<lparr>o_outputPath := Some p1\<rparr>)) = Inr r1"
    and "fst (exportDiagram pf fs2 (opts\<lparr>o_outputPath := Some p2\<rparr>)) = Inr r2"
  shows "files (snd (exportDiagram pf fs1 (opts\<lparr>o_outputPath := Some p1\<rparr>))) (path_resolve pf p1) =
         files (snd (exportDiagram pf fs2 (opts\<lparr>o_outputPath := Some p2\<rparr>))) (path_resolve pf p2)
         \<and> files (snd (exportDiagram pf fs1 (opts\<lparr>o_outputPath := Some p1\<rparr>))) (path_resolve pf p1) \<noteq> None
         \<and> fst (exportDiagram pf fs1 (opts\<lparr>o_outputPath := None\<rparr>)) =
             fst (exportDiagram pf fs2 (opts\<lparr>o_outputPath := None\<rparr>))"
proof -
  have run1: "exportDiagram pf fs1 (opts\<lparr>o_outputPath := Some p1\<rparr>) =
                (Inr r1, snd (exportDiagram pf fs1 (opts\<lparr>o_outputPath := Some p1\<rparr>)))"
    using assms(3) by (simp add: prod_eq_iff)
  have run2: "exportDiagram pf fs2 (opts\<lparr>o_outputPath := Some p2\<rparr>) =
                (Inr r2, snd (exportDiagram pf fs2 (opts\<lparr>o_outputPath := Some p2\<rparr>)))"
    using assms(4) by (simp add: prod_eq_iff)
  note first = written_file [OF assms(1) run1]
  note second = written_file [OF assms(2) run2]
  have same: "files (snd (exportDiagram pf fs1 (opts\<lparr>o_outputPath := Some p1\<rparr>))) (path_resolve pf p1) =
              files (snd (exportDiagram pf fs2 (opts\<lparr>o_outputPath := Some p2\<rparr>))) (path_resolve pf p2)"
    by (simp only: conjunct2 [OF first] conjunct2 [OF second])
  from same conjunct1 [OF first] inline_export_ignores_filesystem [of pf fs1 opts fs2]
  show ?thesis by blast
qed

text \<open>
The theorem at three requests: an inline PNG export, a PDF export written to
  \<open>out.pdf\<close>, and a PNG export to the path that cannot be written.
\<close>

theorem placeholder_exports_witness:
  "o_diagramCode (demo_options ''png'' None) = Some (js (''flowchart TD\<newline>'' @ ''A-->B''))
   \<and> o_format (demo_options ''png'' None) = Some (js ''png'')
   \<and> \<not> truthy (o_outputPath (demo_options ''png'' None))
   \<and> (\<exists>r. exportDiagram demo_platform empty_filesystem (demo_options ''png'' None) =
              (Inr r, empty_filesystem)
          \<and> success r \<and> outputPath r = None
          \<and> base64Data r = Some (js ''iVBORw0KGgoAAAANSUhEUgAAAAEAAAABCAYAAAAfFcSJAAAADUlEQVR42mNkYPhfDwAChwGA60e6kgAAAABJRU5ErkJggg=='')
          \<and> size_str r = js ''~150KB'')
   \<and> o_diagramCode (demo_options ''pdf'' (Some (js ''out.pdf''))) = Some (js (''flowchart TD\<newline>'' @ ''A-->B''))
   \<and> o_format (demo_options ''pdf'' (Some (js ''out.pdf''))) = Some (js ''pdf'')
   \<and> o_outputPath (demo_options ''pdf'' (Some (js ''out.pdf''))) = Some (js ''out.pdf'')
   \<and> js ''out.pdf'' \<noteq> []
   \<and> write_error demo_platform (js ''out.pdf'') = None
   \<and> (\<exists>r fs'. exportDiagram demo_platform empty_filesystem (demo_options ''pdf'' (Some (js ''out.pdf''))) =
                 (Inr r, fs')
          \<and> success r \<and> size_str r = js ''~200KB''
          \<and> files fs' (path_resolve demo_platform (js ''out.pdf'')) =
              Some (utf8_encode (js ''PDF export placeholder for diagram: ''
                     @ take 50 (js (''flowchart TD\<newline>'' @ ''A-->B'')) @ js ''...'')))
   \<and> o_diagramCode (demo_options ''png'' (Some (js ''locked/diagram''))) = Some (js (''flowchart TD\<newline>'' @ ''A-->B''))
   \<and> o_format (demo_options ''png'' (Some (js ''locked/diagram''))) = Some (js ''png'')
   \<and> o_outputPath (demo_options ''png'' (Some (js ''locked/diagram''))) = Some (js ''locked/diagram'')
   \<and> js ''locked/diagram'' \<noteq> []
   \<and> write_error demo_platform (js ''locked/diagram'') = Some (js ''EACCES: permission denied'')
   \<and> fst (exportDiagram demo_platform empty_filesystem (demo_options ''png'' (Some (js ''locked/diagram'')))) =
       Inl (ErrorObject (js ''EACCES: permission denied''))"
proof -
  have h1: "o_diagramCode (demo_options ''png'' None) = Some (js (''flowchart TD\<newline>'' @ ''A-->B''))"
    and h2: "o_diagramCode (demo_options ''pdf'' (Some (js ''out.pdf''))) = Some (js (''flowchart TD\<newline>'' @ ''A-->B''))"
    and h3: "o_diagramCode (demo_options ''png'' (Some (js ''locked/diagram''))) = Some (js (''flowchart TD\<newline>'' @ ''A-->B''))"
    by (simp_all add: demo_options_def)
  have facts:
    "o_format (demo_options ''png'' None) = Some (js ''png'')"
    "\<not> truthy (o_outputPath (demo_options ''png'' None))"
    "o_format (demo_options ''pdf'' (Some (js ''out.pdf''))) = Some (js ''pdf'')"
    "o_outputPath (demo_options ''pdf'' (Some (js ''out.pdf''))) = Some (js ''out.pdf'')"
    "js ''out.pdf'' \<noteq> []"
    "write_error demo_platform (js ''out.pdf'') = None"
    "o_format (demo_options ''png'' (Some (js ''locked/diagram''))) = Some (js ''png'')"
    "o_outputPath (demo_options ''png'' (Some (js ''locked/diagram''))) = Some (js ''locked/diagram'')"
    "js ''locked/diagram'' \<noteq> []"
    "write_error demo_platform (js ''locked/diagram'') = Some (js ''EACCES: permission denied'')"
    by (simp_all add: demo_options_def truthy_None demo_platform_def js_def)
  show ?thesis
    using placeholder_exports [OF h1, of demo_platform empty_filesystem]
      placeholder_exports [OF h2, of demo_platform empty_filesystem]
      placeholder_exports [OF h3, of demo_platform empty_filesystem]
      h1 h2 h3 facts
    by (simp add: format_literals_distinct)
qed

text \<open>
Claim C8 as stated fails when the file cannot be written: the PNG export throws.
\<close>

theorem png_write_failure_counterexample:
  "fst (exportDiagram demo_platform empty_filesystem
         (demo_options ''png'' (Some (js ''locked/diagram'')))) =
     Inl (ErrorObject (js ''EACCES: permission denied''))"
  by (simp add: exportDiagram_png demo_options_def or_default_def renderPNG_write_fail
      demo_platform_def js_def)

lemma demo_pdf_to:
  "p \<noteq> [] \<Longrightarrow> p \<noteq> js ''locked/diagram'' \<Longrightarrow>
   fst (exportDiagram demo_platform empty_filesystem ((demo_options ''pdf'' None)\<lparr>o_outputPath := Some p\<rparr>)) =
     Inr \<lparr>success = True, outputPath = Some (js ''/work/'' @ p), base64Data = None,
          size_str = js ''~200KB'',
          details = js ''PDF would be generated with '' @ js ''dark'' @ js '' theme''\<rparr>"
  by (simp add: exportDiagram_pdf demo_options_def renderPDF_written or_default_def
      demo_platform_def)

text \<open>
  The theorem at two PDF exports of the same options, to \<open>a.pdf\<close> and to \<open>b.pdf\<close>.
\<close>

theorem export_deterministic_witness:
  "js ''a.pdf'' \<noteq> [] \<and> js ''b.pdf'' \<noteq> []
   \<and> fst (exportDiagram demo_platform empty_filesystem
            ((demo_options ''pdf'' None)\<lparr>o_outputPath := Some (js ''a.pdf'')\<rparr>)) =
       Inr \<lparr>success = True, outputPath = Some (js ''/work/'' @ js ''a.pdf''), base64Data = None,
            size_str = js ''~200KB'',
            details = js ''PDF would be generated with '' @ js ''dark'' @ js '' theme''\<rparr>
   \<and> fst (exportDiagram demo_platform empty_filesystem
            ((demo_options ''pdf'' None)\<lparr>o_outputPath := Some (js ''b.pdf'')\<rparr>)) =
       Inr \<lparr>success = True, outputPath = Some (js ''/work/'' @ js ''b.pdf''), base64Data = None,
            size_str = js ''~200KB'',
            details = js ''PDF would be generated with '' @ js ''dark'' @ js '' theme''\<rparr>
   \<and> files (snd (exportDiagram demo_platform empty_filesystem
                   ((demo_options ''pdf'' None)\<lparr>o_outputPath := Some (js ''a.pdf'')\<rparr>)))
         (path_resolve demo_platform (js ''a.pdf'')) =
       files (snd (exportDiagram demo_platform empty_filesystem
                   ((demo_options ''pdf'' None)\<lparr>o_outputPath := Some (js ''b.pdf'')\<rparr>)))
         (path_resolve demo_platform (js ''b.pdf''))
   \<and> files (snd (exportDiagram demo_platform empty_filesystem
                   ((demo_options ''pdf'' None)\<lparr>o_outputPath := Some (js ''a.pdf'')\<rparr>)))
         (path_resolve demo_platform (js ''a.pdf'')) \<noteq> None"
proof -
  have a: "js ''a.pdf'' \<noteq> []" "js ''a.pdf'' \<noteq> js ''locked/diagram''"
    and b: "js ''b.pdf'' \<noteq> []" "js ''b.pdf'' \<noteq> js ''locked/diagram''"
    by (simp_all add: js_def)
  show ?thesis
    using export_deterministic [OF a(1) b(1) demo_pdf_to [OF a] demo_pdf_to [OF b]]
      a(1) b(1) demo_pdf_to [OF a] demo_pdf_to [OF b]
    by blast
qed

section \<open>Syntax validation: claim C10\<close>

lemma number_string_3: "number_string 3 = js ''3''"
  by (simp add: number_string_def decimal.simps js_def)


section \<open>The theme lookup: claim C7\<close>

text \<open>
  Claim C7 at the theme name \<open>constructor\<close>: the lookup \<open>themes[theme]\<close> finds the
  member inherited from \<open>Object.prototype\<close>, which is truthy, so the fallback
  \<open>|| themes.default\<close> is not taken; the object returned is not the default palette, and
  the colours read from it are \<open>undefined\<close>, which the SVG prints as such. A name that is neither a theme nor
  inherited does fall back to the default palette.
\<close>
theorem theme_lookup_finds_inherited_member:
  \<open>getThemeColors (js ''constructor'') = InheritedMember
   \<and> getThemeColors (js ''constructor'') \<noteq> Palette themes_default
   \<and> getThemeColors (js ''nonexistent'') = Palette themes_default
   \<and> property strokeColor (getThemeColors (js ''constructor'')) = None
   \<and> template_string (property strokeColor (getThemeColors (js ''constructor''))) = js ''undefined''
   \<and> (case generateSVGTemplate (Some code) (js ''constructor'') of
         Inl error \<Rightarrow> False
       | Inr svg \<Rightarrow>
           prefix (js (''<?xml version="1.0" encoding="UTF-8"?>\<newline>'' @
                       ''<svg width="400" height="300" xmlns="http://www.w3.org/2000/svg">\<newline>'' @
                       ''  <defs>\<newline>'' @
                       ''    <style>\<newline>'' @
                       ''      .node { fill: undefined; stroke: undefined; stroke-width: 2; }\<newline>'' @
                       ''      .edge { stroke: undefined; stroke-width: 2; }\<newline>'' @
                       ''      .label { fill: undefined; font-family: Arial, sans-serif; font-size: 12px; }\<newline>''))
             svg)\<close>
proof -
  have lookup: "getThemeColors (js ''constructor'') = InheritedMember"
    by (simp add: getThemeColors_def themes_def object_prototype_names_def js_def)
  have fallback: "getThemeColors (js ''nonexistent'') = Palette themes_default"
    by (simp add: getThemeColors_def themes_def object_prototype_names_def js_def)
  have svg: \<open>case generateSVGTemplate (Some code) (js ''constructor'') of
         Inl error \<Rightarrow> False
       | Inr svg \<Rightarrow>
           prefix (js (''<?xml version="1.0" encoding="UTF-8"?>\<newline>'' @
                       ''<svg width="400" height="300" xmlns="http://www.w3.org/2000/svg">\<newline>'' @
                       ''  <defs>\<newline>'' @
                       ''    <style>\<newline>'' @
                       ''      .node { fill: undefined; stroke: undefined; stroke-width: 2; }\<newline>'' @
                       ''      .edge { stroke: undefined; stroke-width: 2; }\<newline>'' @
                       ''      .label { fill: undefined; font-family: Arial, sans-serif; font-size: 12px; }\<newline>''))
             svg\<close>
    by (simp add: generateSVGTemplate_def Let_def lookup property_def template_string_def)
      (simp add: js_def)
  from lookup fallback svg show ?thesis
    by (simp add: property_def template_string_def)
qed

lemma getThemeColors_fallback:
  "theme \<notin> set (map fst themes) \<Longrightarrow> theme \<notin> set (map js object_prototype_names) \<Longrightarrow>
   getThemeColors theme = Palette themes_default"
  by (simp add: getThemeColors_def map_of_eq_None_iff [THEN iffD2] image_iff)

section \<open>The handlers and the call handler: claims C1, C3 and C4\<close>

lemma validateDiagramSyntax_Some:
  "validateDiagramSyntax (Some args) =
     Inr \<lparr>content = [text_block (
       js (''# Syntax Validation Results\<newline>'' @ ''\<newline>'') @
       check_mark @ js ('' **Valid Mermaid syntax**\<newline>'' @ ''\<newline>'') @
       js (''## Diagram Info\<newline>'' @ ''- **Type**: flowchart\<newline>'' @
           ''- **Nodes**: 3\<newline>'' @ ''- **Complexity**: low\<newline>''))]\<rparr>"
  by (simp add: validateDiagramSyntax_def validateDiagramSyntax_destructure_def Let_def
      performSyntaxValidation_def validation_response_def number_string_3 js_def)

lemma validate_response_has_mark:
  "validateDiagramSyntax (Some x) = Inr r \<Longrightarrow> first_text_includes r check_mark"
  unfolding validateDiagramSyntax_Some
  by (auto simp: first_text_includes_def text_block_def includes_str_def)

lemma generateDiagramFromCode_Some:
  "generateDiagramFromCode (Some args) =
     Inr \<lparr>content = [text_block (
       js (''# Generated flowchart Diagram\<newline>'' @ ''\<newline>'' @
           ''```mermaid\<newline>'' @
           ''flowchart TD\<newline>'' @ ''    A[Start] --> B[Process]\<newline>'' @ ''    B --> C[End]\<newline>'' @
           ''```\<newline>'' @ ''\<newline>'' @
           ''## Analysis Summary\<newline>'' @
           ''- **Detected Type**: flowchart\<newline>'' @
           ''- **Complexity**: medium\<newline>'' @
           ''- **Elements**: functions, variables, classes\<newline>'' @
           ''- **Syntax Valid**: Yes''))]\<rparr>"
proof -
  obtain r where r: "validateDiagramSyntax
      (Some (no_arguments\<lparr>a_diagram_code := Some (generateDiagramCode
         (analyzeCodeStructure (a_code args) (a_language args))
         (or_default (a_diagram_type args) (js ''auto''))
         (or_default (a_include_details args) False))\<rparr>)) = Inr r"
    and yes: "first_text_includes r check_mark"
    using validate_response_has_mark validateDiagramSyntax_Some by blast
  show ?thesis
    by (simp add: generateDiagramFromCode_def generateDiagramFromCode_destructure_def Let_def
        r yes)
      (simp add: analyzeCodeStructure_def generateDiagramCode_def js_def)
qed

lemma analyzeDiagramStructure_Some:
  "analyzeDiagramStructure (Some args) =
     Inr \<lparr>content = [text_block (
       js (''# Diagram Structure Analysis\<newline>'' @ ''\<newline>'' @
           ''## Overview\<newline>'' @
           ''- **Type**: flowchart\<newline>'' @
           ''- **Nodes**: 3\<newline>'' @
           ''- **Edges**: 2\<newline>'' @
           ''- **Complexity Score**: 5/10\<newline>'' @ ''\<newline>'' @
           ''## Structure Details\<newline>'' @
           ''Simple linear flow\<newline>'' @ ''\<newline>'' @
           ''## Recommendations\<newline>'' @
           ''- Add decision points\<newline>'' @
           ''- Include error handling''))]\<rparr>"
  by (simp add: analyzeDiagramStructure_def analyzeDiagramStructure_destructure_def Let_def
      performDiagramAnalysis_def number_string_def decimal.simps js_def)

lemma optimized_or_single:
  "template_string (optimized_or (generateImprovementSuggestions dc context audience) dc) =
     template_string dc"
  by (simp add: optimized_or_def generateImprovementSuggestions_def Let_def truthy_def
      split: option.splits)

lemma suggestDiagramImprovements_Some:
  "suggestDiagramImprovements (Some args) =
     Inr \<lparr>content = [text_block (
       js (''# Diagram Improvement Suggestions\<newline>'' @ ''\<newline>'' @ ''## For '') @
       or_default (a_audience args) (js ''general'') @
       js ('' audience\<newline>'' @ ''\<newline>'' @
           ''### 1. Improve Readability\<newline>'' @
           ''**Priority**: High\<newline>'' @
           ''**Description**: Add clearer labels and grouping\<newline>'' @
           ''**Implementation**: Use subgraphs and better node labels\<newline>'' @
           ''\<newline>'' @ ''\<newline>'' @
           ''## Optimized Version\<newline>'' @
           ''```mermaid\<newline>'') @
       template_string (a_diagram_code args) @
       js (''\<newline>'' @ ''```''))]\<rparr>"
  by (simp add: suggestDiagramImprovements_def suggestDiagramImprovements_destructure_def Let_def
      optimized_or_single)
    (simp add: generateImprovementSuggestions_def number_string_def decimal.simps js_def)

lemma createWorkflowDiagram_cases:
  "a_workflow_type args = None \<Longrightarrow>
   createWorkflowDiagram pf (Some args) =
     Inl (rethrow ''Failed to create workflow diagram: '' (cannot_read ''toUpperCase''))"
  "a_workflow_type args = Some t \<Longrightarrow> a_workflow_description args = None \<Longrightarrow>
   createWorkflowDiagram pf (Some args) =
     Inl (rethrow ''Failed to create workflow diagram: '' (cannot_read ''slice''))"
  "a_workflow_type args = Some t \<Longrightarrow> a_workflow_description args = Some d \<Longrightarrow>
   createWorkflowDiagram pf (Some args) =
     Inr \<lparr>content = [text_block (
       js ''# '' @ toUpperCase pf t @
       js ('' Workflow Diagram\<newline>'' @ ''\<newline>'' @ ''```mermaid\<newline>'') @
       generateWorkflowDiagram (Some d) (Some t)
         (or_default (a_include_decision_points args) True)
         (or_default (a_format args) (js ''flowchart'')) @
       js (''\<newline>'' @ ''```\<newline>'' @ ''\<newline>'' @
           ''## Workflow Features\<newline>'' @ ''- **Type**: '') @
       t @
       js (''\<newline>'' @ ''- **Format**: '') @
       or_default (a_format args) (js ''flowchart'') @
       js (''\<newline>'' @ ''- **Decision Points**: '') @
       (if or_default (a_include_decision_points args) True then js ''Included''
        else js ''Not included'') @
       js (''\<newline>'' @ ''- **Generated from**: '') @
       take 100 d @
       (if length d > 100 then js ''...'' else []))]\<rparr>"
  by (simp_all add: createWorkflowDiagram_def createWorkflowDiagram_destructure_def Let_def
      slice0_def)

lemma handlers_without_arguments:
  "generateDiagramFromCode None = Inl (cannot_destructure ''code'')"
  "analyzeDiagramStructure None = Inl (cannot_destructure ''diagram_code'')"
  "suggestDiagramImprovements None = Inl (cannot_destructure ''diagram_code'')"
  "createWorkflowDiagram pf None = Inl (cannot_destructure ''workflow_description'')"
  "exportDiagramFormats pf fs None = (Inl (cannot_destructure ''diagram_code''), fs)"
  "validateDiagramSyntax None = Inl (cannot_destructure ''diagram_code'')"
  by (simp_all add: generateDiagramFromCode_def analyzeDiagramStructure_def
      suggestDiagramImprovements_def createWorkflowDiagram_def exportDiagramFormats_def
      validateDiagramSyntax_def)

lemma dispatch_known:
  "dispatch pf fs (js ''generate_diagram_from_code'') args = (generateDiagramFromCode args, fs)"
  "dispatch pf fs (js ''analyze_diagram_structure'') args = (analyzeDiagramStructure args, fs)"
  "dispatch pf fs (js ''suggest_diagram_improvements'') args = (suggestDiagramImprovements args, fs)"
  "dispatch pf fs (js ''create_workflow_diagram'') args = (createWorkflowDiagram pf args, fs)"
  "dispatch pf fs (js ''export_diagram_formats'') args = exportDiagramFormats pf fs args"
  "dispatch pf fs (js ''validate_diagram_syntax'') args = (validateDiagramSyntax args, fs)"
  by (simp_all add: dispatch_def js_def)

lemma listed_names:
  "map t_name listTools =
     [js ''generate_diagram_from_code'', js ''analyze_diagram_structure'',
      js ''suggest_diagram_improvements'', js ''create_workflow_diagram'',
      js ''export_diagram_formats'', js ''validate_diagram_syntax'']"
  by (simp add: listTools_def generate_diagram_from_code_tool_def
      analyze_diagram_structure_tool_def suggest_diagram_improvements_tool_def
      create_workflow_diagram_tool_def export_diagram_formats_tool_def
      validate_diagram_syntax_tool_def)

lemma dispatch_unknown:
  "name \<notin> set (map t_name listTools) \<Longrightarrow>
   dispatch pf fs name args = (Inl (ErrorObject (js ''Unknown tool: '' @ name)), fs)"
  by (simp add: listed_names dispatch_def)

lemma callTool_Inl:
  "dispatch pf fs name args = (Inl e, fs') \<Longrightarrow> callTool pf fs name args = (error_response name e, fs')"
  by (simp add: callTool_def)

lemma callTool_Inr:
  "dispatch pf fs name args = (Inr r, fs') \<Longrightarrow> callTool pf fs name args = (r, fs')"
  by (simp add: callTool_def)

lemma error_response_text:
  "content (error_response name e) =
     [text_block (js ''Error executing '' @ name @ js '': '' @ message_or e (js ''Unknown error occurred''))]"
  by (simp add: error_response_def)

lemma exportDiagramFormats_pipeline_failure:
  assumes "exportDiagram pf fs
             \<lparr>o_diagramCode = a_diagram_code a, o_format = a_format a,
              o_theme = Some (or_default (a_theme a) (js ''default'')),
              o_width = Some (or_default (a_width a) 1920),
              o_height = Some (or_default (a_height a) 1080),
              o_outputPath = a_output_path a\<rparr> = (Inl e, fs')"
  shows "exportDiagramFormats pf fs (Some a) = (Inl (rethrow ''Failed to export diagram: '' e), fs')"
  using assms by (simp add: exportDiagramFormats_def exportDiagramFormats_destructure_def)

text \<open>
  Claim C1. \<open>callTool\<close> returns a response for every request; it has no error outcome.
  Whatever a matched handler throws, the export pipeline's failures among it, and likewise an
  unknown tool name, comes back as the response built by the \<open>catch\<close>: one text block
  whose text is \<open>Error executing <name>: <message>\<close>, which contains the tool name and
  the message of the failure.
\<close>

theorem callTool_reports_every_failure:
  "(generateDiagramFromCode args = Inl e \<longrightarrow>
      callTool pf fs (js ''generate_diagram_from_code'') args =
        (error_response (js ''generate_diagram_from_code'') e, fs))
   \<and> (analyzeDiagramStructure args = Inl e \<longrightarrow>
      callTool pf fs (js ''analyze_diagram_structure'') args =
        (error_response (js ''analyze_diagram_structure'') e, fs))
   \<and> (suggestDiagramImprovements args = Inl e \<longrightarrow>
      callTool pf fs (js ''suggest_diagram_improvements'') args =
        (error_response (js ''suggest_diagram_improvements'') e, fs))
   \<and> (createWorkflowDiagram pf args = Inl e \<longrightarrow>
      callTool pf fs (js ''create_workflow_diagram'') args =
        (error_response (js ''create_workflow_diagram'') e, fs))
   \<and> (exportDiagramFormats pf fs args = (Inl e, fs') \<longrightarrow>
      callTool pf fs (js ''export_diagram_formats'') args =
        (error_response (js ''export_diagram_formats'') e, fs'))
   \<and> (validateDiagramSyntax args = Inl e \<longrightarrow>
      callTool pf fs (js ''validate_diagram_syntax'') args =
        (error_response (js ''validate_diagram_syntax'') e, fs))
   \<and> (exportDiagram pf fs
          \<lparr>o_diagramCode = a_diagram_code a, o_format = a_format a,
           o_theme = Some (or_default (a_theme a) (js ''default'')),
           o_width = Some (or_default (a_width a) 1920),
           o_height = Some (or_default (a_height a) 1080),
           o_outputPath = a_output_path a\<rparr> = (Inl e, fs') \<longrightarrow>
      callTool pf fs (js ''export_diagram_formats'') (Some a) =
        (error_response (js ''export_diagram_formats'')
           (ErrorObject (js ''Failed to export diagram: '' @ message_or e (js ''Unknown error''))),
         fs'))
   \<and> (name \<notin> set (map t_name listTools) \<longrightarrow>
      callTool pf fs name args =
        (error_response name (ErrorObject (js ''Unknown tool: '' @ name)), fs))
   \<and> content (error_response name e) =
       [\<lparr>block_type = TextBlock,
         block_text = Some (js ''Error executing '' @ name @ js '': ''
                            @ message_or e (js ''Unknown error occurred'')),
         block_data = None, block_mimeType = None\<rparr>]
   \<and> includes_str (js ''Error executing '' @ name @ js '': ''
                     @ message_or e (js ''Unknown error occurred'')) name
   \<and> includes_str (js ''Error executing '' @ name @ js '': ''
                     @ message_or e (js ''Unknown error occurred''))
         (message_or e (js ''Unknown error occurred''))"
proof -
  have in_name: "includes_str (js ''Error executing '' @ name @ js '': ''
                     @ message_or e (js ''Unknown error occurred'')) name"
    by (rule includes_mid)
  have "includes_str ((js ''Error executing '' @ name @ js '': '')
                     @ message_or e (js ''Unknown error occurred'') @ [])
         (message_or e (js ''Unknown error occurred''))"
    by (rule includes_mid)
  then have in_message: "includes_str (js ''Error executing '' @ name @ js '': ''
                     @ message_or e (js ''Unknown error occurred''))
         (message_or e (js ''Unknown error occurred''))"
    by simp
  show ?thesis
    using in_name in_message
    by (simp add: callTool_Inl dispatch_known dispatch_unknown error_response_text text_block_def
        exportDiagramFormats_pipeline_failure rethrow_def)
qed

lemma demo_unknown: "js ''render_chart'' \<notin> set (map t_name listTools)"
  by (simp add: listed_names js_def)

lemma demo_locked_export:
  "fst (exportDiagram demo_platform empty_filesystem
          \<lparr>o_diagramCode = Some (js ''graph TD''), o_format = Some (js ''html''),
           o_theme = Some (js ''default''), o_width = Some 1920, o_height = Some 1080,
           o_outputPath = Some (js ''locked/diagram'')\<rparr>) =
     Inl (ErrorObject (js ''EACCES: permission denied''))"
  by (simp add: exportDiagram_html renderHTML_write_fail or_default_def demo_platform_def js_def)

text \<open>
  The theorem at an unknown tool name, at a call of \<open>validate_diagram_syntax\<close> without
  arguments, and at an HTML export to the file that cannot be written.
\<close>

theorem callTool_reports_every_failure_witness:
  "js ''render_chart'' \<notin> set (map t_name listTools)
   \<and> callTool demo_platform empty_filesystem (js ''render_chart'') None =
       (\<lparr>content = [text_block (js ''Error executing render_chart: Unknown tool: render_chart'')]\<rparr>,
        empty_filesystem)
   \<and> validateDiagramSyntax None = Inl (cannot_destructure ''diagram_code'')
   \<and> callTool demo_platform empty_filesystem (js ''validate_diagram_syntax'') None =
       (\<lparr>content = [text_block (js (''Error executing validate_diagram_syntax: '' @
           ''Cannot destructure property '' @ [CHR 0x27] @ ''diagram_code'' @ [CHR 0x27] @
           '' of '' @ [CHR 0x27] @ ''args'' @ [CHR 0x27] @ '' as it is undefined.''))]\<rparr>,
        empty_filesystem)
   \<and> fst (exportDiagram demo_platform empty_filesystem
          \<lparr>o_diagramCode = Some (js ''graph TD''), o_format = Some (js ''html''),
           o_theme = Some (js ''default''), o_width = Some 1920, o_height = Some 1080,
           o_outputPath = Some (js ''locked/diagram'')\<rparr>) =
       Inl (ErrorObject (js ''EACCES: permission denied''))
   \<and> fst (callTool demo_platform empty_filesystem (js ''export_diagram_formats'')
          (Some (no_arguments\<lparr>a_diagram_code := Some (js ''graph TD''),
             a_format := Some (js ''html''), a_output_path := Some (js ''locked/diagram'')\<rparr>))) =
       \<lparr>content = [text_block (js (''Error executing export_diagram_formats: '' @
           ''Failed to export diagram: EACCES: permission denied''))]\<rparr>"
proof -
  define a where "a = no_arguments\<lparr>a_diagram_code := Some (js ''graph TD''),
             a_format := Some (js ''html''), a_output_path := Some (js ''locked/diagram'')\<rparr>"
  define opts where "opts = \<lparr>o_diagramCode = a_diagram_code a, o_format = a_format a,
           o_theme = Some (or_default (a_theme a) (js ''default'')),
           o_width = Some (or_default (a_width a) 1920),
           o_height = Some (or_default (a_height a) 1080),
           o_outputPath = a_output_path a\<rparr>"
  have opts: "opts = \<lparr>o_diagramCode = Some (js ''graph TD''), o_format = Some (js ''html''),
           o_theme = Some (js ''default''), o_width = Some 1920, o_height = Some 1080,
           o_outputPath = Some (js ''locked/diagram'')\<rparr>"
    by (simp add: opts_def a_def no_arguments_def or_default_def)
  have failed: "exportDiagram demo_platform empty_filesystem opts =
      (Inl (ErrorObject (js ''EACCES: permission denied'')),
       snd (exportDiagram demo_platform empty_filesystem opts))"
    using demo_locked_export by (simp add: opts prod_eq_iff)
  note unknown = callTool_reports_every_failure
      [of None "ErrorObject (js ''Unknown tool: '' @ js ''render_chart'')" demo_platform
          empty_filesystem empty_filesystem no_arguments "js ''render_chart''"]
  note undefined_args = callTool_reports_every_failure
      [of None "cannot_destructure ''diagram_code''" demo_platform empty_filesystem
          empty_filesystem no_arguments "js ''render_chart''"]
  note pipeline = callTool_reports_every_failure
      [of None "ErrorObject (js ''EACCES: permission denied'')" demo_platform empty_filesystem
          "snd (exportDiagram demo_platform empty_filesystem opts)" a "js ''render_chart''"]
  from pipeline failed
  have reported: "fst (callTool demo_platform empty_filesystem (js ''export_diagram_formats'') (Some a)) =
      error_response (js ''export_diagram_formats'')
        (ErrorObject (js ''Failed to export diagram: '' @
           message_or (ErrorObject (js ''EACCES: permission denied'')) (js ''Unknown error'')))"
    by (simp add: opts_def)
  from unknown undefined_args demo_unknown handlers_without_arguments(6) demo_locked_export reported
  show ?thesis
    by (simp add: a_def error_response_def message_or_def cannot_destructure_def js_def)
qed

lemmas tool_defs =
  listTools_def generate_diagram_from_code_tool_def analyze_diagram_structure_tool_def
  suggest_diagram_improvements_tool_def create_workflow_diagram_tool_def
  export_diagram_formats_tool_def validate_diagram_syntax_tool_def

lemmas destructure_defs =
  generateDiagramFromCode_destructure_def analyzeDiagramStructure_destructure_def
  suggestDiagramImprovements_destructure_def createWorkflowDiagram_destructure_def
  exportDiagramFormats_destructure_def validateDiagramSyntax_destructure_def

text \<open>
  Claim C3 at the tool \<open>generate_diagram_from_code\<close>: the listing declares no default for
  \<open>diagram_type\<close> (it does declare the one of \<open>include_details\<close>), while the handler
  substitutes \<open>'auto'\<close> when the field is absent.
\<close>

theorem diagram_type_default_not_declared:
  "declared_default (js ''generate_diagram_from_code'') (js ''diagram_type'') = None
   \<and> declared_default (js ''generate_diagram_from_code'') (js ''include_details'') =
       Some (JBoolean False)
   \<and> generateDiagramFromCode_destructure (args\<lparr>a_diagram_type := None\<rparr>) =
       (a_code args, js ''auto'', a_language args, or_default (a_include_details args) False)
   \<and> map_of (handler_variables (js ''generate_diagram_from_code'') (args\<lparr>a_diagram_type := None\<rparr>))
         (js ''diagram_type'') = Some (Some (JString (js ''auto'')))"
  by (simp add: declared_default_def find_tool_def tool_defs handler_variables_def
      generateDiagramFromCode_destructure_def or_default_def js_def)

lemma declared_defaults_substituted:
  "\<forall>t\<in>set listTools. \<forall>(field, p)\<in>set (s_properties (t_inputSchema t)). \<forall>d.
     p_default p = Some d \<longrightarrow> argument args field = None \<longrightarrow>
     map_of (handler_variables (t_name t) args) field = Some (Some d)"
  apply (simp add: tool_defs)
  apply (simp add: handler_variables_def destructure_defs argument_def or_default_def js_def)
  done


lemma export_without_format:
  "a_format args = None \<Longrightarrow>
   fst (exportDiagramFormats pf fs (Some args)) =
     Inl (ErrorObject (js ''Failed to export diagram: Unsupported format: undefined''))"
  by (simp add: exportDiagramFormats_def exportDiagramFormats_destructure_def
      exportDiagram_unsupported rethrow_def message_or_def template_string_def js_def)

lemma exportDiagramFormats_report:
  assumes "exportDiagram pf fs
             \<lparr>o_diagramCode = a_diagram_code a, o_format = a_format a,
              o_theme = Some (or_default (a_theme a) (js ''default'')),
              o_width = Some (or_default (a_width a) 1920),
              o_height = Some (or_default (a_height a) 1080),
              o_outputPath = a_output_path a\<rparr> = (Inr r, fs')"
    and "a_format a = Some fmt"
  shows "exportDiagramFormats pf fs (Some a) =
     (Inr \<lparr>content = [text_block (
        js (''# Diagram Export Complete\<newline>'' @ ''\<newline>'' @ ''- **Format**: '') @
        toUpperCase pf fmt @
        js (''\<newline>'' @ ''- **Theme**: '') @
        or_default (a_theme a) (js ''default'') @
        js (''\<newline>'' @ ''- **Dimensions**: '') @
        template_number pf (or_default (a_width a) 1920) @ js ''x'' @
        template_number pf (or_default (a_height a) 1080) @
        js (''\<newline>'' @ ''- **Output**: '') @
        (if truthy (outputPath r) then the (outputPath r) else js ''Base64 encoded'') @
        js (''\<newline>'' @ ''- **Size**: '') @
        size_str r @
        js (''\<newline>'' @ ''\<newline>'' @ ''## Export Details\<newline>'') @
        details r)]\<rparr>, fs')"
  using assms by (simp add: exportDiagramFormats_def exportDiagramFormats_destructure_def)

lemma export_without_source_fails:
  assumes "a_diagram_code a = None"
    and "a_format a = Some (js ''svg'')
         \<or> (a_format a \<in> {Some (js ''png''), Some (js ''pdf'')} \<and> truthy (a_output_path a))"
  shows "exportDiagramFormats pf fs (Some a) =
     (Inl (rethrow ''Failed to export diagram: '' (cannot_read ''slice'')), fs)"
proof (rule exportDiagramFormats_pipeline_failure)
  let ?opts = "\<lparr>o_diagramCode = a_diagram_code a, o_format = a_format a,
              o_theme = Some (or_default (a_theme a) (js ''default'')),
              o_width = Some (or_default (a_width a) 1920),
              o_height = Some (or_default (a_height a) 1080),
              o_outputPath = a_output_path a\<rparr>"
  from assms(2) consider
      (svg) "a_format a = Some (js ''svg'')"
    | (png) p where "a_format a = Some (js ''png'')" "a_output_path a = Some p" "p \<noteq> []"
    | (pdf) p where "a_format a = Some (js ''pdf'')" "a_output_path a = Some p" "p \<noteq> []"
    using truthy_cases by blast
  then show "exportDiagram pf fs ?opts = (Inl (cannot_read ''slice''), fs)"
  proof cases
    case svg
    then show ?thesis by (simp add: exportDiagram_svg assms(1) render_missing_code)
  next
    case png
    then show ?thesis by (simp add: exportDiagram_png assms(1) render_missing_code)
  next
    case pdf
    then show ?thesis by (simp add: exportDiagram_pdf assms(1) render_missing_code)
  qed
qed

lemma slice_failure_text:
  "rethrow label (cannot_read ''slice'') =
     ErrorObject (js (label @ ''Cannot read properties of undefined (reading '' @ [CHR 0x27] @
                      ''slice'' @ [CHR 0x27] @ '')''))"
  by (simp add: rethrow_def cannot_read_def message_or_def js_def)

lemma export_png_inline_report:
  assumes "a_format a = Some (js ''png'')" and "\<not> truthy (a_output_path a)"
  shows "exportDiagramFormats pf fs (Some a) =
     (Inr \<lparr>content = [text_block (
        js (''# Diagram Export Complete\<newline>'' @ ''\<newline>'' @ ''- **Format**: '') @
        toUpperCase pf (js ''png'') @
        js (''\<newline>'' @ ''- **Theme**: '') @
        or_default (a_theme a) (js ''default'') @
        js (''\<newline>'' @ ''- **Dimensions**: '') @
        template_number pf (or_default (a_width a) 1920) @ js ''x'' @
        template_number pf (or_default (a_height a) 1080) @
        js (''\<newline>'' @ ''- **Output**: Base64 encoded\<newline>'' @
            ''- **Size**: ~150KB\<newline>'' @ ''\<newline>'' @
            ''## Export Details\<newline>'' @
            ''PNG would be rendered at '') @
        template_number pf (or_default (a_width a) 1920) @ js ''x'' @
        template_number pf (or_default (a_height a) 1080) @
        js '' with '' @ or_default (a_theme a) (js ''default'') @ js '' theme'')]\<rparr>, fs)"
  by (simp add: exportDiagramFormats_report [OF _ assms(1)] exportDiagram_png assms
      renderPNG_inline or_default_def truthy_None)
    (simp add: js_def)

lemma export_pdf_inline_report:
  assumes "a_format a = Some (js ''pdf'')" and "\<not> truthy (a_output_path a)"
  shows "exportDiagramFormats pf fs (Some a) =
     (Inr \<lparr>content = [text_block (
        js (''# Diagram Export Complete\<newline>'' @ ''\<newline>'' @ ''- **Format**: '') @
        toUpperCase pf (js ''pdf'') @
        js (''\<newline>'' @ ''- **Theme**: '') @
        or_default (a_theme a) (js ''default'') @
        js (''\<newline>'' @ ''- **Dimensions**: '') @
        template_number pf (or_default (a_width a) 1920) @ js ''x'' @
        template_number pf (or_default (a_height a) 1080) @
        js (''\<newline>'' @ ''- **Output**: Base64 encoded\<newline>'' @
            ''- **Size**: ~200KB\<newline>'' @ ''\<newline>'' @
            ''## Export Details\<newline>'' @
            ''PDF would be generated with '') @
        or_default (a_theme a) (js ''default'') @ js '' theme'')]\<rparr>, fs)"
  by (simp add: exportDiagramFormats_report [OF _ assms(1)] exportDiagram_pdf assms
      renderPDF_inline or_default_def truthy_None)
    (simp add: js_def)

lemma generateHTMLTemplate_undefined:
  "generateHTMLTemplate None theme = generateHTMLTemplate (Some (js ''undefined'')) theme"
  by (simp add: generateHTMLTemplate_def template_string_def)

lemma export_html_without_source:
  assumes "a_diagram_code a = None" and "a_format a = Some (js ''html'')"
  shows "exportDiagramFormats pf fs (Some a) =
         exportDiagramFormats pf fs (Some (a\<lparr>a_diagram_code := Some (js ''undefined'')\<rparr>))"
  by (simp add: exportDiagramFormats_def exportDiagramFormats_destructure_def assms
      exportDiagram_html renderHTML_def generateHTMLTemplate_undefined)

lemma export_unsupported_format:
  assumes "a_format a = Some f" and "f \<notin> {js ''svg'', js ''png'', js ''pdf'', js ''html''}"
  shows "exportDiagramFormats pf fs (Some a) =
     (Inl (ErrorObject (js ''Failed to export diagram: Unsupported format: '' @ f)), fs)"
proof -
  have "exportDiagramFormats pf fs (Some a) =
     (Inl (rethrow ''Failed to export diagram: ''
        (ErrorObject (js ''Unsupported format: '' @ template_string (Some f)))), fs)"
    by (rule exportDiagramFormats_pipeline_failure)
      (use assms in \<open>simp add: exportDiagram_unsupported\<close>)
  then show ?thesis
    by (simp add: rethrow_def message_or_def template_string_def js_def)
qed

text \<open>
  Claim C4, as amended. No handler checks its required fields, and no call yields an
  \<open>InvalidArguments\<close> error. With any argument object, also one that misses the required
  field, \<open>generate_diagram_from_code\<close>, \<open>analyze_diagram_structure\<close>,
  \<open>suggest_diagram_improvements\<close> and \<open>validate_diagram_syntax\<close> return their report: the
  same text whatever the arguments for three of them, and for
  \<open>suggest_diagram_improvements\<close> the text with the audience (default \<open>general\<close>) and
  with the source as a template prints it, \<open>undefined\<close> when it is missing. A call with an
  argument object fails for a missing required field only where the handler dereferences the
  missing value, with a TypeError that is thrown on with the handler's prefix and returned as
  text by the call handler:

  \<^item> \<open>create_workflow_diagram\<close> without \<open>workflow_type\<close>, and with it but without
    \<open>workflow_description\<close>; with both it returns its report;
  \<^item> \<open>export_diagram_formats\<close> without \<open>format\<close> (unsupported format \<open>undefined\<close>);
    a format that is present and is none of the four fails as unsupported, with or without
    \<open>diagram_code\<close>;
  \<^item> \<open>export_diagram_formats\<close> without \<open>diagram_code\<close> when the format is \<open>svg\<close>, or is
    \<open>png\<close> or \<open>pdf\<close> with a non-empty \<open>output_path\<close>, and the file system stays as it
    was. Without \<open>diagram_code\<close>, \<open>png\<close> and \<open>pdf\<close> with no or an empty \<open>output_path\<close>
    return their report, and \<open>html\<close> goes exactly as with the source text \<open>undefined\<close>.

  A call with no argument object at all fails in the destructuring line of each of the six
  handlers. For every property with a declared default, a handler whose argument object
  lacks the field holds the declared default in its variable.
\<close>

theorem missing_fields_and_defaults:
  "generateDiagramFromCode (Some args) =
     Inr \<lparr>content = [text_block (
       js (''# Generated flowchart Diagram\<newline>'' @ ''\<newline>'' @
           ''```mermaid\<newline>'' @
           ''flowchart TD\<newline>'' @ ''    A[Start] --> B[Process]\<newline>'' @ ''    B --> C[End]\<newline>'' @
           ''```\<newline>'' @ ''\<newline>'' @
           ''## Analysis Summary\<newline>'' @
           ''- **Detected Type**: flowchart\<newline>'' @
           ''- **Complexity**: medium\<newline>'' @
           ''- **Elements**: functions, variables, classes\<newline>'' @
           ''- **Syntax Valid**: Yes''))]\<rparr>
   \<and> analyzeDiagramStructure (Some args) =
     Inr \<lparr>content = [text_block (
       js (''# Diagram Structure Analysis\<newline>'' @ ''\<newline>'' @
           ''## Overview\<newline>'' @
           ''- **Type**: flowchart\<newline>'' @
           ''- **Nodes**: 3\<newline>'' @
           ''- **Edges**: 2\<newline>'' @
           ''- **Complexity Score**: 5/10\<newline>'' @ ''\<newline>'' @
           ''## Structure Details\<newline>'' @
           ''Simple linear flow\<newline>'' @ ''\<newline>'' @
           ''## Recommendations\<newline>'' @
           ''- Add decision points\<newline>'' @
           ''- Include error handling''))]\<rparr>
   \<and> suggestDiagramImprovements (Some args) =
     Inr \<lparr>content = [text_block (
       js (''# Diagram Improvement Suggestions\<newline>'' @ ''\<newline>'' @ ''## For '') @
       or_default (a_audience args) (js ''general'') @
       js ('' audience\<newline>'' @ ''\<newline>'' @
           ''### 1. Improve Readability\<newline>'' @
           ''**Priority**: High\<newline>'' @
           ''**Description**: Add clearer labels and grouping\<newline>'' @
           ''**Implementation**: Use subgraphs and better node labels\<newline>'' @
           ''\<newline>'' @ ''\<newline>'' @
           ''## Optimized Version\<newline>'' @
           ''```mermaid\<newline>'') @
       template_string (a_diagram_code args) @
       js (''\<newline>'' @ ''```''))]\<rparr>
   \<and> validateDiagramSyntax (Some args) =
     Inr \<lparr>content = [text_block (
       js (''# Syntax Validation Results\<newline>'' @ ''\<newline>'') @
       check_mark @ js ('' **Valid Mermaid syntax**\<newline>'' @ ''\<newline>'') @
       js (''## Diagram Info\<newline>'' @ ''- **Type**: flowchart\<newline>'' @
           ''- **Nodes**: 3\<newline>'' @ ''- **Complexity**: low\<newline>''))]\<rparr>
   \<and> (a_workflow_type args = None \<longrightarrow>
        callTool pf fs (js ''create_workflow_diagram'') (Some args) =
          (error_response (js ''create_workflow_diagram'')
             (ErrorObject (js (''Failed to create workflow diagram: '' @
                ''Cannot read properties of undefined (reading '' @ [CHR 0x27] @
                ''toUpperCase'' @ [CHR 0x27] @ '')''))), fs))
   \<and> (a_workflow_type args \<noteq> None \<and> a_workflow_description args = None \<longrightarrow>
        callTool pf fs (js ''create_workflow_diagram'') (Some args) =
          (error_response (js ''create_workflow_diagram'')
             (ErrorObject (js (''Failed to create workflow diagram: '' @
                ''Cannot read properties of undefined (reading '' @ [CHR 0x27] @
                ''slice'' @ [CHR 0x27] @ '')''))), fs))
   \<and> (\<forall>t d. a_workflow_type args = Some t \<and> a_workflow_description args = Some d \<longrightarrow>
        createWorkflowDiagram pf (Some args) =
          Inr \<lparr>content = [text_block (
            js ''# '' @ toUpperCase pf t @
            js ('' Workflow Diagram\<newline>'' @ ''\<newline>'' @ ''```mermaid\<newline>'') @
            generateWorkflowDiagram (Some d) (Some t)
              (or_default (a_include_decision_points args) True)
              (or_default (a_format args) (js ''flowchart'')) @
            js (''\<newline>'' @ ''```\<newline>'' @ ''\<newline>'' @
                ''## Workflow Features\<newline>'' @ ''- **Type**: '') @
            t @
            js (''\<newline>'' @ ''- **Format**: '') @
            or_default (a_format args) (js ''flowchart'') @
            js (''\<newline>'' @ ''- **Decision Points**: '') @
            (if or_default (a_include_decision_points args) True then js ''Included''
             else js ''Not included'') @
            js (''\<newline>'' @ ''- **Generated from**: '') @
            take 100 d @
            (if length d > 100 then js ''...'' else []))]\<rparr>)
   \<and> (a_format args = None \<longrightarrow>
        fst (callTool pf fs (js ''export_diagram_formats'') (Some args)) =
          error_response (js ''export_diagram_formats'')
            (ErrorObject (js ''Failed to export diagram: Unsupported format: undefined'')))
   \<and> (\<forall>f. a_format args = Some f
            \<and> f \<notin> {js ''svg'', js ''png'', js ''pdf'', js ''html''} \<longrightarrow>
        callTool pf fs (js ''export_diagram_formats'') (Some args) =
          (error_response (js ''export_diagram_formats'')
             (ErrorObject (js ''Failed to export diagram: Unsupported format: '' @ f)), fs))
   \<and> (a_diagram_code args = None
        \<and> (a_format args = Some (js ''svg'')
             \<or> (a_format args \<in> {Some (js ''png''), Some (js ''pdf'')}
                  \<and> truthy (a_output_path args))) \<longrightarrow>
        callTool pf fs (js ''export_diagram_formats'') (Some args) =
          (error_response (js ''export_diagram_formats'')
             (ErrorObject (js (''Failed to export diagram: '' @
                ''Cannot read properties of undefined (reading '' @ [CHR 0x27] @
                ''slice'' @ [CHR 0x27] @ '')''))), fs))
   \<and> (a_diagram_code args = None \<and> a_format args = Some (js ''png'')
        \<and> \<not> truthy (a_output_path args) \<longrightarrow>
        callTool pf fs (js ''export_diagram_formats'') (Some args) =
          (\<lparr>content = [text_block (
             js (''# Diagram Export Complete\<newline>'' @ ''\<newline>'' @ ''- **Format**: '') @
             toUpperCase pf (js ''png'') @
             js (''\<newline>'' @ ''- **Theme**: '') @
             or_default (a_theme args) (js ''default'') @
             js (''\<newline>'' @ ''- **Dimensions**: '') @
             template_number pf (or_default (a_width args) 1920) @ js ''x'' @
             template_number pf (or_default (a_height args) 1080) @
             js (''\<newline>'' @ ''- **Output**: Base64 encoded\<newline>'' @
                 ''- **Size**: ~150KB\<newline>'' @ ''\<newline>'' @
                 ''## Export Details\<newline>'' @
                 ''PNG would be rendered at '') @
             template_number pf (or_default (a_width args) 1920) @ js ''x'' @
             template_number pf (or_default (a_height args) 1080) @
             js '' with '' @ or_default (a_theme args) (js ''default'') @ js '' theme'')]\<rparr>, fs))
   \<and> (a_diagram_code args = None \<and> a_format args = Some (js ''pdf'')
        \<and> \<not> truthy (a_output_path args) \<longrightarrow>
        callTool pf fs (js ''export_diagram_formats'') (Some args) =
          (\<lparr>content = [text_block (
             js (''# Diagram Export Complete\<newline>'' @ ''\<newline>'' @ ''- **Format**: '') @
             toUpperCase pf (js ''pdf'') @
             js (''\<newline>'' @ ''- **Theme**: '') @
             or_default (a_theme args) (js ''default'') @
             js (''\<newline>'' @ ''- **Dimensions**: '') @
             template_number pf (or_default (a_width args) 1920) @ js ''x'' @
             template_number pf (or_default (a_height args) 1080) @
             js (''\<newline>'' @ ''- **Output**: Base64 encoded\<newline>'' @
                 ''- **Size**: ~200KB\<newline>'' @ ''\<newline>'' @
                 ''## Export Details\<newline>'' @
                 ''PDF would be generated with '') @
             or_default (a_theme args) (js ''default'') @ js '' theme'')]\<rparr>, fs))
   \<and> (a_diagram_code args = None \<and> a_format args = Some (js ''html'') \<longrightarrow>
        callTool pf fs (js ''export_diagram_formats'') (Some args) =
          callTool pf fs (js ''export_diagram_formats'')
            (Some (args\<lparr>a_diagram_code := Some (js ''undefined'')\<rparr>)))
   \<and> callTool pf fs (js ''generate_diagram_from_code'') None =
        (error_response (js ''generate_diagram_from_code'') (cannot_destructure ''code''), fs)
   \<and> callTool pf fs (js ''analyze_diagram_structure'') None =
        (error_response (js ''analyze_diagram_structure'') (cannot_destructure ''diagram_code''), fs)
   \<and> callTool pf fs (js ''suggest_diagram_improvements'') None =
        (error_response (js ''suggest_diagram_improvements'') (cannot_destructure ''diagram_code''), fs)
   \<and> callTool pf fs (js ''create_workflow_diagram'') None =
        (error_response (js ''create_workflow_diagram'')
           (cannot_destructure ''workflow_description''), fs)
   \<and> callTool pf fs (js ''export_diagram_formats'') None =
        (error_response (js ''export_diagram_formats'') (cannot_destructure ''diagram_code''), fs)
   \<and> callTool pf fs (js ''validate_diagram_syntax'') None =
        (error_response (js ''validate_diagram_syntax'') (cannot_destructure ''diagram_code''), fs)
   \<and> (\<forall>t\<in>set listTools. \<forall>(field, p)\<in>set (s_properties (t_inputSchema t)). \<forall>d.
          p_default p = Some d \<longrightarrow> argument args field = None \<longrightarrow>
          map_of (handler_variables (t_name t) args) field = Some (Some d))"
proof -
  have workflow1: "a_workflow_type args = None \<Longrightarrow>
        callTool pf fs (js ''create_workflow_diagram'') (Some args) =
          (error_response (js ''create_workflow_diagram'')
             (ErrorObject (js (''Failed to create workflow diagram: '' @
                ''Cannot read properties of undefined (reading '' @ [CHR 0x27] @
                ''toUpperCase'' @ [CHR 0x27] @ '')''))), fs)"
    by (simp add: callTool_Inl dispatch_known createWorkflowDiagram_cases(1))
      (simp add: rethrow_def cannot_read_def message_or_def js_def)
  have workflow2: "a_workflow_type args \<noteq> None \<and> a_workflow_description args = None \<Longrightarrow>
        callTool pf fs (js ''create_workflow_diagram'') (Some args) =
          (error_response (js ''create_workflow_diagram'')
             (ErrorObject (js (''Failed to create workflow diagram: '' @
                ''Cannot read properties of undefined (reading '' @ [CHR 0x27] @
                ''slice'' @ [CHR 0x27] @ '')''))), fs)"
    by (auto simp: callTool_Inl dispatch_known createWorkflowDiagram_cases(2))
      (simp add: rethrow_def cannot_read_def message_or_def js_def)
  note workflow3 = createWorkflowDiagram_cases(3) [of args _ _ pf]
  have export_format: "a_format args = None \<Longrightarrow>
        fst (callTool pf fs (js ''export_diagram_formats'') (Some args)) =
          error_response (js ''export_diagram_formats'')
            (ErrorObject (js ''Failed to export diagram: Unsupported format: undefined''))"
  proof -
    assume "a_format args = None"
    from export_without_format [OF this, of pf fs]
    have "exportDiagramFormats pf fs (Some args) =
        (Inl (ErrorObject (js ''Failed to export diagram: Unsupported format: undefined'')),
         snd (exportDiagramFormats pf fs (Some args)))"
      by (simp add: prod_eq_iff)
    then show ?thesis by (simp add: callTool_Inl dispatch_known)
  qed
  have export_unsupported: "a_format args = Some f
            \<and> f \<notin> {js ''svg'', js ''png'', js ''pdf'', js ''html''} \<Longrightarrow>
        callTool pf fs (js ''export_diagram_formats'') (Some args) =
          (error_response (js ''export_diagram_formats'')
             (ErrorObject (js ''Failed to export diagram: Unsupported format: '' @ f)), fs)" for f
    using export_unsupported_format [of args f pf fs]
    by (simp add: callTool_Inl dispatch_known)
  have export_source: "a_diagram_code args = None
        \<and> (a_format args = Some (js ''svg'')
             \<or> (a_format args \<in> {Some (js ''png''), Some (js ''pdf'')}
                  \<and> truthy (a_output_path args))) \<Longrightarrow>
        callTool pf fs (js ''export_diagram_formats'') (Some args) =
          (error_response (js ''export_diagram_formats'')
             (ErrorObject (js (''Failed to export diagram: '' @
                ''Cannot read properties of undefined (reading '' @ [CHR 0x27] @
                ''slice'' @ [CHR 0x27] @ '')''))), fs)"
    using export_without_source_fails [of args pf fs]
    by (simp add: callTool_Inl dispatch_known slice_failure_text)
  note export_png = export_png_inline_report [of args pf fs]
  note export_pdf = export_pdf_inline_report [of args pf fs]
  have export_html: "a_diagram_code args = None \<and> a_format args = Some (js ''html'') \<Longrightarrow>
        callTool pf fs (js ''export_diagram_formats'') (Some args) =
          callTool pf fs (js ''export_diagram_formats'')
            (Some (args\<lparr>a_diagram_code := Some (js ''undefined'')\<rparr>))"
    using export_html_without_source [of args pf fs]
    by (simp add: callTool_def dispatch_known)
  show ?thesis
    using workflow1 workflow2 workflow3 export_format export_unsupported export_source
      export_png export_pdf export_html declared_defaults_substituted [of args]
    by (simp add: generateDiagramFromCode_Some validateDiagramSyntax_Some
        analyzeDiagramStructure_Some suggestDiagramImprovements_Some
        callTool_Inl callTool_Inr dispatch_known handlers_without_arguments)
qed

text \<open>
  Claim C4 as stated fails for \<open>generate_diagram_from_code\<close> called with the empty
  argument object: \<open>code\<close> is declared required and is missing, and the call returns the
  ordinary report, not an error.
\<close>

theorem missing_required_code_counterexample:
  "js ''code'' \<in> set (declared_required (js ''generate_diagram_from_code''))
   \<and> argument no_arguments (js ''code'') = None
   \<and> callTool demo_platform empty_filesystem (js ''generate_diagram_from_code'') (Some no_arguments) =
       (\<lparr>content = [text_block (
          js (''# Generated flowchart Diagram\<newline>'' @ ''\<newline>'' @
           ''```mermaid\<newline>'' @
           ''flowchart TD\<newline>'' @ ''    A[Start] --> B[Process]\<newline>'' @ ''    B --> C[End]\<newline>'' @
           ''```\<newline>'' @ ''\<newline>'' @
           ''## Analysis Summary\<newline>'' @
           ''- **Detected Type**: flowchart\<newline>'' @
           ''- **Complexity**: medium\<newline>'' @
           ''- **Elements**: functions, variables, classes\<newline>'' @
           ''- **Syntax Valid**: Yes''))]\<rparr>,
        empty_filesystem)"
  by (simp add: callTool_Inr dispatch_known generateDiagramFromCode_Some)
    (simp add: declared_required_def find_tool_def tool_defs argument_def no_arguments_def js_def)

text \<open>
  The theorem at the empty argument object (for \<open>suggest_diagram_improvements\<close>,
  \<open>create_workflow_diagram\<close> and \<open>export_diagram_formats\<close>), at one with
  \<open>workflow_type\<close> only, at one with
  \<open>workflow_type\<close> and \<open>workflow_description\<close>, at exports without \<open>diagram_code\<close> in
  each format and in the format \<open>gif\<close>, and at the property \<open>width\<close> of
  \<open>export_diagram_formats\<close>.
\<close>

theorem missing_fields_and_defaults_witness:
  "suggestDiagramImprovements (Some no_arguments) =
       Inr \<lparr>content = [text_block (
         js (''# Diagram Improvement Suggestions\<newline>'' @ ''\<newline>'' @
             ''## For general audience\<newline>'' @ ''\<newline>'' @
             ''### 1. Improve Readability\<newline>'' @
             ''**Priority**: High\<newline>'' @
             ''**Description**: Add clearer labels and grouping\<newline>'' @
             ''**Implementation**: Use subgraphs and better node labels\<newline>'' @
             ''\<newline>'' @ ''\<newline>'' @
             ''## Optimized Version\<newline>'' @
             ''```mermaid\<newline>'' @
             ''undefined\<newline>'' @
             ''```''))]\<rparr>
   \<and> a_workflow_type no_arguments = None
   \<and> callTool demo_platform empty_filesystem (js ''create_workflow_diagram'') (Some no_arguments) =
          (error_response (js ''create_workflow_diagram'')
             (ErrorObject (js (''Failed to create workflow diagram: '' @
                ''Cannot read properties of undefined (reading '' @ [CHR 0x27] @
                ''toUpperCase'' @ [CHR 0x27] @ '')''))), empty_filesystem)
   \<and> a_workflow_type (no_arguments\<lparr>a_workflow_type := Some (js ''cicd'')\<rparr>) \<noteq> None
   \<and> a_workflow_description (no_arguments\<lparr>a_workflow_type := Some (js ''cicd'')\<rparr>) = None
   \<and> callTool demo_platform empty_filesystem (js ''create_workflow_diagram'')
         (Some (no_arguments\<lparr>a_workflow_type := Some (js ''cicd'')\<rparr>)) =
          (error_response (js ''create_workflow_diagram'')
             (ErrorObject (js (''Failed to create workflow diagram: '' @
                ''Cannot read properties of undefined (reading '' @ [CHR 0x27] @
                ''slice'' @ [CHR 0x27] @ '')''))), empty_filesystem)
   \<and> a_workflow_type (no_arguments\<lparr>a_workflow_type := Some (js ''cicd''),
           a_workflow_description := Some (js ''x'')\<rparr>) = Some (js ''cicd'')
   \<and> a_workflow_description (no_arguments\<lparr>a_workflow_type := Some (js ''cicd''),
           a_workflow_description := Some (js ''x'')\<rparr>) = Some (js ''x'')
   \<and> createWorkflowDiagram demo_platform
         (Some (no_arguments\<lparr>a_workflow_type := Some (js ''cicd''),
            a_workflow_description := Some (js ''x'')\<rparr>)) =
       Inr \<lparr>content = [text_block (
         js (''# CICD Workflow Diagram\<newline>'' @ ''\<newline>'' @
             ''```mermaid\<newline>'' @
             ''flowchart TD\<newline>'' @
             ''    A[Start] --> B{Decision}\<newline>'' @
             ''    B -->|Yes| C[Action]\<newline>'' @
             ''    B -->|No| D[Alternative]\<newline>'' @
             ''    C --> E[End]\<newline>'' @
             ''    D --> E\<newline>'' @
             ''```\<newline>'' @ ''\<newline>'' @
             ''## Workflow Features\<newline>'' @
             ''- **Type**: cicd\<newline>'' @
             ''- **Format**: flowchart\<newline>'' @
             ''- **Decision Points**: Included\<newline>'' @
             ''- **Generated from**: x''))]\<rparr>
   \<and> a_format no_arguments = None
   \<and> fst (callTool demo_platform empty_filesystem (js ''export_diagram_formats'') (Some no_arguments)) =
          error_response (js ''export_diagram_formats'')
            (ErrorObject (js ''Failed to export diagram: Unsupported format: undefined''))
   \<and> a_diagram_code (no_arguments\<lparr>a_format := Some (js ''svg'')\<rparr>) = None
   \<and> a_format (no_arguments\<lparr>a_format := Some (js ''svg'')\<rparr>) = Some (js ''svg'')
   \<and> callTool demo_platform empty_filesystem (js ''export_diagram_formats'')
         (Some (no_arguments\<lparr>a_format := Some (js ''svg'')\<rparr>)) =
          (error_response (js ''export_diagram_formats'')
             (ErrorObject (js (''Failed to export diagram: '' @
                ''Cannot read properties of undefined (reading '' @ [CHR 0x27] @
                ''slice'' @ [CHR 0x27] @ '')''))), empty_filesystem)
   \<and> a_diagram_code (no_arguments\<lparr>a_format := Some (js ''pdf''),
           a_output_path := Some (js ''out.pdf'')\<rparr>) = None
   \<and> a_format (no_arguments\<lparr>a_format := Some (js ''pdf''),
           a_output_path := Some (js ''out.pdf'')\<rparr>) \<in> {Some (js ''png''), Some (js ''pdf'')}
   \<and> truthy (a_output_path (no_arguments\<lparr>a_format := Some (js ''pdf''),
           a_output_path := Some (js ''out.pdf'')\<rparr>))
   \<and> callTool demo_platform empty_filesystem (js ''export_diagram_formats'')
         (Some (no_arguments\<lparr>a_format := Some (js ''pdf''),
            a_output_path := Some (js ''out.pdf'')\<rparr>)) =
          (error_response (js ''export_diagram_formats'')
             (ErrorObject (js (''Failed to export diagram: '' @
                ''Cannot read properties of undefined (reading '' @ [CHR 0x27] @
                ''slice'' @ [CHR 0x27] @ '')''))), empty_filesystem)
   \<and> a_diagram_code (no_arguments\<lparr>a_format := Some (js ''png'')\<rparr>) = None
   \<and> a_format (no_arguments\<lparr>a_format := Some (js ''png'')\<rparr>) = Some (js ''png'')
   \<and> \<not> truthy (a_output_path (no_arguments\<lparr>a_format := Some (js ''png'')\<rparr>))
   \<and> callTool demo_platform empty_filesystem (js ''export_diagram_formats'')
         (Some (no_arguments\<lparr>a_format := Some (js ''png'')\<rparr>)) =
          (\<lparr>content = [text_block (
             js (''# Diagram Export Complete\<newline>'' @ ''\<newline>'' @
                 ''- **Format**: PNG\<newline>'' @
                 ''- **Theme**: default\<newline>'' @
                 ''- **Dimensions**: 1920x1080\<newline>'' @
                 ''- **Output**: Base64 encoded\<newline>'' @
                 ''- **Size**: ~150KB\<newline>'' @ ''\<newline>'' @
                 ''## Export Details\<newline>'' @
                 ''PNG would be rendered at 1920x1080 with default theme''))]\<rparr>,
           empty_filesystem)
   \<and> a_diagram_code (no_arguments\<lparr>a_format := Some (js ''pdf'')\<rparr>) = None
   \<and> a_format (no_arguments\<lparr>a_format := Some (js ''pdf'')\<rparr>) = Some (js ''pdf'')
   \<and> \<not> truthy (a_output_path (no_arguments\<lparr>a_format := Some (js ''pdf'')\<rparr>))
   \<and> callTool demo_platform empty_filesystem (js ''export_diagram_formats'')
         (Some (no_arguments\<lparr>a_format := Some (js ''pdf'')\<rparr>)) =
          (\<lparr>content = [text_block (
             js (''# Diagram Export Complete\<newline>'' @ ''\<newline>'' @
                 ''- **Format**: PDF\<newline>'' @
                 ''- **Theme**: default\<newline>'' @
                 ''- **Dimensions**: 1920x1080\<newline>'' @
                 ''- **Output**: Base64 encoded\<newline>'' @
                 ''- **Size**: ~200KB\<newline>'' @ ''\<newline>'' @
                 ''## Export Details\<newline>'' @
                 ''PDF would be generated with default theme''))]\<rparr>,
           empty_filesystem)
   \<and> a_diagram_code (no_arguments\<lparr>a_format := Some (js ''html'')\<rparr>) = None
   \<and> a_format (no_arguments\<lparr>a_format := Some (js ''html'')\<rparr>) = Some (js ''html'')
   \<and> callTool demo_platform empty_filesystem (js ''export_diagram_formats'')
         (Some (no_arguments\<lparr>a_format := Some (js ''html'')\<rparr>)) =
       callTool demo_platform empty_filesystem (js ''export_diagram_formats'')
         (Some (no_arguments\<lparr>a_format := Some (js ''html''),
            a_diagram_code := Some (js ''undefined'')\<rparr>))
   \<and> a_format (no_arguments\<lparr>a_format := Some (js ''gif'')\<rparr>) = Some (js ''gif'')
   \<and> js ''gif'' \<notin> {js ''svg'', js ''png'', js ''pdf'', js ''html''}
   \<and> callTool demo_platform empty_filesystem (js ''export_diagram_formats'')
         (Some (no_arguments\<lparr>a_format := Some (js ''gif'')\<rparr>)) =
          (error_response (js ''export_diagram_formats'')
             (ErrorObject (js ''Failed to export diagram: Unsupported format: '' @ js ''gif'')),
           empty_filesystem)
   \<and> export_diagram_formats_tool \<in> set listTools
   \<and> (js ''width'',
        \<lparr>p_type = js ''number'', p_enum = None,
         p_description = js ''Width for raster formats (PNG)'',
         p_default = Some (JNumber 1920)\<rparr>)
       \<in> set (s_properties (t_inputSchema export_diagram_formats_tool))
   \<and> argument no_arguments (js ''width'') = None
   \<and> map_of (handler_variables (t_name export_diagram_formats_tool) no_arguments) (js ''width'') =
       Some (Some (JNumber 1920))"
proof -
  define with_type where "with_type = no_arguments\<lparr>a_workflow_type := Some (js ''cicd'')\<rparr>"
  define with_both where "with_both = no_arguments\<lparr>a_workflow_type := Some (js ''cicd''),
           a_workflow_description := Some (js ''x'')\<rparr>"
  define svg where "svg = no_arguments\<lparr>a_format := Some (js ''svg'')\<rparr>"
  define pdf_to where "pdf_to = no_arguments\<lparr>a_format := Some (js ''pdf''),
           a_output_path := Some (js ''out.pdf'')\<rparr>"
  define png where "png = no_arguments\<lparr>a_format := Some (js ''png'')\<rparr>"
  define pdf where "pdf = no_arguments\<lparr>a_format := Some (js ''pdf'')\<rparr>"
  define html where "html = no_arguments\<lparr>a_format := Some (js ''html'')\<rparr>"
  define gif where "gif = no_arguments\<lparr>a_format := Some (js ''gif'')\<rparr>"
  note defs = with_type_def with_both_def svg_def pdf_to_def png_def pdf_def html_def gif_def
  have hyps:
    "a_workflow_type no_arguments = None"
    "a_workflow_type with_type \<noteq> None"
    "a_workflow_description with_type = None"
    "a_workflow_type with_both = Some (js ''cicd'')"
    "a_workflow_description with_both = Some (js ''x'')"
    "a_format no_arguments = None"
    "a_diagram_code svg = None"
    "a_format svg = Some (js ''svg'')"
    "a_diagram_code pdf_to = None"
    "a_format pdf_to \<in> {Some (js ''png''), Some (js ''pdf'')}"
    "truthy (a_output_path pdf_to)"
    "a_diagram_code png = None"
    "a_format png = Some (js ''png'')"
    "\<not> truthy (a_output_path png)"
    "a_diagram_code pdf = None"
    "a_format pdf = Some (js ''pdf'')"
    "\<not> truthy (a_output_path pdf)"
    "a_diagram_code html = None"
    "a_format html = Some (js ''html'')"
    "a_format gif = Some (js ''gif'')"
    "js ''gif'' \<notin> {js ''svg'', js ''png'', js ''pdf'', js ''html''}"
    by (simp_all add: defs no_arguments_def truthy_def js_def)
  have listed: "export_diagram_formats_tool \<in> set listTools"
    by (simp add: listTools_def)
  have width: "(js ''width'',
        \<lparr>p_type = js ''number'', p_enum = None,
         p_description = js ''Width for raster formats (PNG)'',
         p_default = Some (JNumber 1920)\<rparr>)
       \<in> set (s_properties (t_inputSchema export_diagram_formats_tool))"
    by (simp add: export_diagram_formats_tool_def)
  have absent: "argument no_arguments (js ''width'') = None"
    by (simp add: argument_def no_arguments_def js_def)
  note at_empty = missing_fields_and_defaults
    [where args = no_arguments and pf = demo_platform and fs = empty_filesystem]
  note at_type = missing_fields_and_defaults
    [where args = with_type and pf = demo_platform and fs = empty_filesystem]
  note at_both = missing_fields_and_defaults
    [where args = with_both and pf = demo_platform and fs = empty_filesystem]
  note at_svg = missing_fields_and_defaults
    [where args = svg and pf = demo_platform and fs = empty_filesystem]
  note at_pdf_to = missing_fields_and_defaults
    [where args = pdf_to and pf = demo_platform and fs = empty_filesystem]
  note at_png = missing_fields_and_defaults
    [where args = png and pf = demo_platform and fs = empty_filesystem]
  note at_pdf = missing_fields_and_defaults
    [where args = pdf and pf = demo_platform and fs = empty_filesystem]
  note at_html = missing_fields_and_defaults
    [where args = html and pf = demo_platform and fs = empty_filesystem]
  note at_gif = missing_fields_and_defaults
    [where args = gif and pf = demo_platform and fs = empty_filesystem]
  note gif_format = at_gif [THEN conjunct2, THEN conjunct2, THEN conjunct2, THEN conjunct2, THEN conjunct2, THEN conjunct2, THEN conjunct2, THEN conjunct2, THEN conjunct1]
  note empty_workflow = at_empty [THEN conjunct2, THEN conjunct2, THEN conjunct2, THEN conjunct2, THEN conjunct1]
  note empty_format = at_empty [THEN conjunct2, THEN conjunct2, THEN conjunct2, THEN conjunct2, THEN conjunct2, THEN conjunct2, THEN conjunct2, THEN conjunct1]
  note empty_defaults = at_empty [THEN conjunct2, THEN conjunct2, THEN conjunct2, THEN conjunct2, THEN conjunct2, THEN conjunct2, THEN conjunct2, THEN conjunct2, THEN conjunct2, THEN conjunct2, THEN conjunct2, THEN conjunct2, THEN conjunct2, THEN conjunct2, THEN conjunct2, THEN conjunct2, THEN conjunct2, THEN conjunct2, THEN conjunct2]
  note type_workflow = at_type [THEN conjunct2, THEN conjunct2, THEN conjunct2, THEN conjunct2, THEN conjunct2, THEN conjunct1]
  note both_workflow = at_both [THEN conjunct2, THEN conjunct2, THEN conjunct2, THEN conjunct2, THEN conjunct2, THEN conjunct2, THEN conjunct1]
  note svg_source = at_svg [THEN conjunct2, THEN conjunct2, THEN conjunct2, THEN conjunct2, THEN conjunct2, THEN conjunct2, THEN conjunct2, THEN conjunct2, THEN conjunct2, THEN conjunct1]
  note pdf_to_source = at_pdf_to [THEN conjunct2, THEN conjunct2, THEN conjunct2, THEN conjunct2, THEN conjunct2, THEN conjunct2, THEN conjunct2, THEN conjunct2, THEN conjunct2, THEN conjunct1]
  note png_inline = at_png [THEN conjunct2, THEN conjunct2, THEN conjunct2, THEN conjunct2, THEN conjunct2, THEN conjunct2, THEN conjunct2, THEN conjunct2, THEN conjunct2, THEN conjunct2, THEN conjunct1]
  note pdf_inline = at_pdf [THEN conjunct2, THEN conjunct2, THEN conjunct2, THEN conjunct2, THEN conjunct2, THEN conjunct2, THEN conjunct2, THEN conjunct2, THEN conjunct2, THEN conjunct2, THEN conjunct2, THEN conjunct1]
  note html_source = at_html [THEN conjunct2, THEN conjunct2, THEN conjunct2, THEN conjunct2, THEN conjunct2, THEN conjunct2, THEN conjunct2, THEN conjunct2, THEN conjunct2, THEN conjunct2, THEN conjunct2, THEN conjunct2, THEN conjunct1]
  from empty_defaults listed width absent
  have substituted: "map_of (handler_variables (t_name export_diagram_formats_tool) no_arguments)
      (js ''width'') = Some (Some (JNumber 1920))"
    by fastforce
  from at_empty [THEN conjunct2, THEN conjunct2, THEN conjunct1]
  have suggested: "suggestDiagramImprovements (Some no_arguments) =
       Inr \<lparr>content = [text_block (
         js (''# Diagram Improvement Suggestions\<newline>'' @ ''\<newline>'' @
             ''## For general audience\<newline>'' @ ''\<newline>'' @
             ''### 1. Improve Readability\<newline>'' @
             ''**Priority**: High\<newline>'' @
             ''**Description**: Add clearer labels and grouping\<newline>'' @
             ''**Implementation**: Use subgraphs and better node labels\<newline>'' @
             ''\<newline>'' @ ''\<newline>'' @
             ''## Optimized Version\<newline>'' @
             ''```mermaid\<newline>'' @
             ''undefined\<newline>'' @
             ''```''))]\<rparr>"
    by (simp add: no_arguments_def or_default_def template_string_def js_def)
  from empty_workflow empty_format hyps
  have empty1: "callTool demo_platform empty_filesystem (js ''create_workflow_diagram'') (Some no_arguments) =
          (error_response (js ''create_workflow_diagram'')
             (ErrorObject (js (''Failed to create workflow diagram: '' @
                ''Cannot read properties of undefined (reading '' @ [CHR 0x27] @
                ''toUpperCase'' @ [CHR 0x27] @ '')''))), empty_filesystem)"
    and empty2: "fst (callTool demo_platform empty_filesystem (js ''export_diagram_formats'') (Some no_arguments)) =
          error_response (js ''export_diagram_formats'')
            (ErrorObject (js ''Failed to export diagram: Unsupported format: undefined''))"
    by blast+
  from type_workflow hyps
  have type1: "callTool demo_platform empty_filesystem (js ''create_workflow_diagram'') (Some with_type) =
          (error_response (js ''create_workflow_diagram'')
             (ErrorObject (js (''Failed to create workflow diagram: '' @
                ''Cannot read properties of undefined (reading '' @ [CHR 0x27] @
                ''slice'' @ [CHR 0x27] @ '')''))), empty_filesystem)"
    by blast
  from both_workflow hyps
  have both1: "createWorkflowDiagram demo_platform (Some with_both) =
       Inr \<lparr>content = [text_block (
         js (''# CICD Workflow Diagram\<newline>'' @ ''\<newline>'' @
             ''```mermaid\<newline>'' @
             ''flowchart TD\<newline>'' @
             ''    A[Start] --> B{Decision}\<newline>'' @
             ''    B -->|Yes| C[Action]\<newline>'' @
             ''    B -->|No| D[Alternative]\<newline>'' @
             ''    C --> E[End]\<newline>'' @
             ''    D --> E\<newline>'' @
             ''```\<newline>'' @ ''\<newline>'' @
             ''## Workflow Features\<newline>'' @
             ''- **Type**: cicd\<newline>'' @
             ''- **Format**: flowchart\<newline>'' @
             ''- **Decision Points**: Included\<newline>'' @
             ''- **Generated from**: x''))]\<rparr>"
    by (simp add: with_both_def no_arguments_def or_default_def generateWorkflowDiagram_def
        demo_platform_def js_def)
  from svg_source hyps
  have svg1: "callTool demo_platform empty_filesystem (js ''export_diagram_formats'') (Some svg) =
          (error_response (js ''export_diagram_formats'')
             (ErrorObject (js (''Failed to export diagram: '' @
                ''Cannot read properties of undefined (reading '' @ [CHR 0x27] @
                ''slice'' @ [CHR 0x27] @ '')''))), empty_filesystem)"
    by blast
  from pdf_to_source hyps
  have pdf_to1: "callTool demo_platform empty_filesystem (js ''export_diagram_formats'') (Some pdf_to) =
          (error_response (js ''export_diagram_formats'')
             (ErrorObject (js (''Failed to export diagram: '' @
                ''Cannot read properties of undefined (reading '' @ [CHR 0x27] @
                ''slice'' @ [CHR 0x27] @ '')''))), empty_filesystem)"
    by blast
  from png_inline hyps
  have png1: "callTool demo_platform empty_filesystem (js ''export_diagram_formats'') (Some png) =
          (\<lparr>content = [text_block (
             js (''# Diagram Export Complete\<newline>'' @ ''\<newline>'' @
                 ''- **Format**: PNG\<newline>'' @
                 ''- **Theme**: default\<newline>'' @
                 ''- **Dimensions**: 1920x1080\<newline>'' @
                 ''- **Output**: Base64 encoded\<newline>'' @
                 ''- **Size**: ~150KB\<newline>'' @ ''\<newline>'' @
                 ''## Export Details\<newline>'' @
                 ''PNG would be rendered at 1920x1080 with default theme''))]\<rparr>,
           empty_filesystem)"
    by (simp add: png_def no_arguments_def or_default_def template_number_def number_string_def
        decimal.simps demo_platform_def js_def)
  from pdf_inline hyps
  have pdf1: "callTool demo_platform empty_filesystem (js ''export_diagram_formats'') (Some pdf) =
          (\<lparr>content = [text_block (
             js (''# Diagram Export Complete\<newline>'' @ ''\<newline>'' @
                 ''- **Format**: PDF\<newline>'' @
                 ''- **Theme**: default\<newline>'' @
                 ''- **Dimensions**: 1920x1080\<newline>'' @
                 ''- **Output**: Base64 encoded\<newline>'' @
                 ''- **Size**: ~200KB\<newline>'' @ ''\<newline>'' @
                 ''## Export Details\<newline>'' @
                 ''PDF would be generated with default theme''))]\<rparr>,
           empty_filesystem)"
    by (simp add: pdf_def no_arguments_def or_default_def template_number_def number_string_def
        decimal.simps demo_platform_def js_def)
  from html_source hyps
  have html1: "callTool demo_platform empty_filesystem (js ''export_diagram_formats'') (Some html) =
       callTool demo_platform empty_filesystem (js ''export_diagram_formats'')
         (Some (html\<lparr>a_diagram_code := Some (js ''undefined'')\<rparr>))"
    by blast
  from gif_format hyps
  have gif1: "callTool demo_platform empty_filesystem (js ''export_diagram_formats'') (Some gif) =
          (error_response (js ''export_diagram_formats'')
             (ErrorObject (js ''Failed to export diagram: Unsupported format: '' @ js ''gif'')),
           empty_filesystem)"
    by blast
  have html2: "html\<lparr>a_diagram_code := Some (js ''undefined'')\<rparr> =
      no_arguments\<lparr>a_format := Some (js ''html''), a_diagram_code := Some (js ''undefined'')\<rparr>"
    by (simp add: html_def)
  note facts = suggested hyps listed width absent substituted empty1 empty2 type1 both1 svg1 pdf_to1
    png1 pdf1 html1 [unfolded html2] gif1
  show ?thesis
    by (insert facts [unfolded defs], intro conjI; assumption)
qed

section \<open>The SVG template and its inline export: claim C6\<close>

subsection \<open>UTF-8 of ASCII text\<close>









subsection \<open>Base64 decoding inverts encoding\<close>














subsection \<open>The SVG template around the source\<close>





subsection \<open>Where the comment ends\<close>






end
